theory Spec2Isabelle
  imports Complex_Main "HOL-Library.AList" "HOL-Library.Sublist"
begin

text \<open>
  The budgeting backend \<open>server.js\<close>: the goal forecast, the category classifier, the
  snapshot aggregator, the per-transaction listing and the plan composer, as functions of
  the JSON values they receive, the clock, the environment (\<open>OPENAI_API_KEY\<close>, the
  module's \<open>lastAccessToken\<close>) and the outcome of the provider's transaction request.
\<close>

section \<open>JavaScript numbers\<close>

text \<open>
  A JavaScript number is modelled as an exact rational or one of the three special
  values. Finite arithmetic is exact: the rounding of binary floating point, the overflow
  of a finite result to an infinity, and the sign of zero are not modelled. The literal
  \<open>0.2\<close> of the source is the rational one fifth.
\<close>

datatype jsnum = NaN | PInf | NInf | Fin rat

fun js_neg :: "jsnum \<Rightarrow> jsnum" where
  "js_neg NaN = NaN"
| "js_neg PInf = NInf"
| "js_neg NInf = PInf"
| "js_neg (Fin a) = Fin (- a)"

fun js_add :: "jsnum \<Rightarrow> jsnum \<Rightarrow> jsnum" where
  "js_add (Fin a) (Fin b) = Fin (a + b)"
| "js_add NaN _ = NaN"
| "js_add _ NaN = NaN"
| "js_add PInf NInf = NaN"
| "js_add NInf PInf = NaN"
| "js_add PInf _ = PInf"
| "js_add _ PInf = PInf"
| "js_add NInf _ = NInf"
| "js_add _ NInf = NInf"

definition js_sub :: "jsnum \<Rightarrow> jsnum \<Rightarrow> jsnum" where
  "js_sub a b = js_add a (js_neg b)"

text \<open>The sign of a number that is not NaN: \<open>-1\<close>, \<open>0\<close> or \<open>1\<close>.\<close>

fun js_sgn :: "jsnum \<Rightarrow> int" where
  "js_sgn NaN = 0"
| "js_sgn PInf = 1"
| "js_sgn NInf = - 1"
| "js_sgn (Fin a) = (if a < 0 then - 1 else if a = 0 then 0 else 1)"

definition signed_inf :: "int \<Rightarrow> jsnum" where
  "signed_inf s = (if s = 0 then NaN else if 0 < s then PInf else NInf)"

fun js_mul :: "jsnum \<Rightarrow> jsnum \<Rightarrow> jsnum" where
  "js_mul (Fin a) (Fin b) = Fin (a * b)"
| "js_mul NaN _ = NaN"
| "js_mul _ NaN = NaN"
| "js_mul a b = signed_inf (js_sgn a * js_sgn b)"

fun js_div :: "jsnum \<Rightarrow> jsnum \<Rightarrow> jsnum" where
  "js_div NaN _ = NaN"
| "js_div _ NaN = NaN"
| "js_div (Fin a) (Fin b) = (if b = 0 then signed_inf (js_sgn (Fin a)) else Fin (a / b))"
| "js_div (Fin a) _ = Fin 0"
| "js_div a (Fin b) = signed_inf (js_sgn a * (if b < 0 then - 1 else 1))"
| "js_div _ _ = NaN"

fun js_le :: "jsnum \<Rightarrow> jsnum \<Rightarrow> bool" where
  "js_le (Fin a) (Fin b) = (a \<le> b)"
| "js_le NaN _ = False"
| "js_le _ NaN = False"
| "js_le NInf _ = True"
| "js_le _ PInf = True"
| "js_le _ _ = False"

fun js_lt :: "jsnum \<Rightarrow> jsnum \<Rightarrow> bool" where
  "js_lt (Fin a) (Fin b) = (a < b)"
| "js_lt NaN _ = False"
| "js_lt _ NaN = False"
| "js_lt PInf _ = False"
| "js_lt _ NInf = False"
| "js_lt _ _ = True"

text \<open>\<open>Math.max\<close>, \<open>Math.abs\<close>, \<open>Math.ceil\<close> and \<open>Math.round\<close> (ties go up).\<close>

fun js_max :: "jsnum \<Rightarrow> jsnum \<Rightarrow> jsnum" where
  "js_max NaN _ = NaN"
| "js_max _ NaN = NaN"
| "js_max a b = (if js_le a b then b else a)"

fun js_abs :: "jsnum \<Rightarrow> jsnum" where
  "js_abs NaN = NaN"
| "js_abs PInf = PInf"
| "js_abs NInf = PInf"
| "js_abs (Fin a) = Fin \<bar>a\<bar>"

fun js_ceil :: "jsnum \<Rightarrow> jsnum" where
  "js_ceil (Fin a) = Fin (of_int \<lceil>a\<rceil>)"
| "js_ceil a = a"

fun js_round :: "jsnum \<Rightarrow> jsnum" where
  "js_round (Fin a) = Fin (of_int \<lfloor>a + 1 / 2\<rfloor>)"
| "js_round a = a"

text \<open>Truthiness of a number, and the idiom \<open>n || 0\<close>.\<close>

fun truthy_num :: "jsnum \<Rightarrow> bool" where
  "truthy_num NaN = False"
| "truthy_num (Fin a) = (a \<noteq> 0)"
| "truthy_num _ = True"

definition num_or_zero :: "jsnum \<Rightarrow> jsnum" where
  "num_or_zero n = (if truthy_num n then n else Fin 0)"

section \<open>JavaScript values as they arrive from JSON\<close>

text \<open>
  An object is the list of its own properties in insertion order, read with \<open>map_of\<close>
  and written with \<open>AList.update\<close>, which keeps the place of a key that is present and
  appends a new one. Strings are lists of ASCII characters.
\<close>

datatype jsval =
    JUndefined
  | JNull
  | JBool bool
  | JNum jsnum
  | JStr string
  | JArr "jsval list"
  | JObj "(string \<times> jsval) list"

text \<open>
  The exceptions the program meets: the two the language throws here, and the rejection
  of a request to the transaction provider.
\<close>

datatype error = TypeError | RangeError | UpstreamError

fun truthy :: "jsval \<Rightarrow> bool" where
  "truthy JUndefined = False"
| "truthy JNull = False"
| "truthy (JBool b) = b"
| "truthy (JNum n) = truthy_num n"
| "truthy (JStr s) = (s \<noteq> [])"
| "truthy (JArr _) = True"
| "truthy (JObj _) = True"

text \<open>The operator \<open>a || b\<close> on values that are already evaluated.\<close>

definition js_or :: "jsval \<Rightarrow> jsval \<Rightarrow> jsval" where
  "js_or a b = (if truthy a then a else b)"

fun typeof :: "jsval \<Rightarrow> string" where
  "typeof JUndefined = ''undefined''"
| "typeof JNull = ''object''"
| "typeof (JBool _) = ''boolean''"
| "typeof (JNum _) = ''number''"
| "typeof (JStr _) = ''string''"
| "typeof (JArr _) = ''object''"
| "typeof (JObj _) = ''object''"

fun isArray :: "jsval \<Rightarrow> bool" where
  "isArray (JArr _) = True"
| "isArray _ = False"

subsection \<open>Decimal digits\<close>

definition digit_char :: "nat \<Rightarrow> char" where
  "digit_char d = ''0123456789'' ! (d mod 10)"

function string_of_nat :: "nat \<Rightarrow> string" where
  "string_of_nat n =
     (if n < 10 then [digit_char n] else string_of_nat (n div 10) @ [digit_char (n mod 10)])"
  by pat_completeness auto
termination
  by (relation "measure id") auto

declare string_of_nat.simps [simp del]

definition pad_left :: "nat \<Rightarrow> string \<Rightarrow> string" where
  "pad_left w s = replicate (w - length s) CHR ''0'' @ s"

subsection \<open>Properties\<close>

text \<open>
  The own enumerable properties of a value, which is what the spread \<open>{...v}\<close> copies:
  the entries of an object, the indexed elements of an array, the indexed characters of a
  string, and nothing for any other value (\<open>undefined\<close> and \<open>null\<close> included).
\<close>

fun own_properties :: "jsval \<Rightarrow> (string \<times> jsval) list" where
  "own_properties (JObj kvs) = kvs"
| "own_properties (JArr xs) = zip (map string_of_nat [0..<length xs]) xs"
| "own_properties (JStr s) = zip (map string_of_nat [0..<length s]) (map (\<lambda>c. JStr [c]) s)"
| "own_properties _ = []"

text \<open>
  Reading \<open>v.k\<close>. On \<open>undefined\<close> and \<open>null\<close> it throws a TypeError; a property that is
  absent reads as \<open>undefined\<close>. The names this program reads (\<open>state\<close>, \<open>income\<close>,
  \<open>categories\<close>, \<open>goals\<close>, \<open>planned\<close>, \<open>targetAmount\<close>, \<open>currentAmount\<close>,
  \<open>monthlyContribution\<close>, \<open>amount\<close>, \<open>name\<close>, \<open>date\<close>, \<open>category\<close>,
  \<open>personal_finance_category\<close>, \<open>primary\<close>, \<open>transaction_id\<close>) are on no prototype, so
  only own properties and \<open>length\<close> are modelled.
\<close>

fun get_prop :: "jsval \<Rightarrow> string \<Rightarrow> error + jsval" where
  "get_prop JUndefined k = Inl TypeError"
| "get_prop JNull k = Inl TypeError"
| "get_prop (JArr xs) k =
     Inr (if k = ''length'' then JNum (Fin (of_nat (length xs)))
          else case map_of (own_properties (JArr xs)) k of None \<Rightarrow> JUndefined | Some v \<Rightarrow> v)"
| "get_prop (JStr s) k =
     Inr (if k = ''length'' then JNum (Fin (of_nat (length s)))
          else case map_of (own_properties (JStr s)) k of None \<Rightarrow> JUndefined | Some v \<Rightarrow> v)"
| "get_prop v k = Inr (case map_of (own_properties v) k of None \<Rightarrow> JUndefined | Some v \<Rightarrow> v)"

text \<open>The optional chain \<open>v?.k\<close>.\<close>

definition get_prop_opt :: "jsval \<Rightarrow> string \<Rightarrow> jsval" where
  "get_prop_opt v k = (case get_prop v k of Inl _ \<Rightarrow> JUndefined | Inr x \<Rightarrow> x)"

subsection \<open>Conversions\<close>

text \<open>
  The conversions of the language that depend on the text of a number or on the methods
  of an object are parameters of the model: every theorem holds for whatever they return.
  \<open>StringToNumber\<close> is \<open>Number(s)\<close> on a string, \<open>NumberToString\<close> is \<open>String(n)\<close> on a
  number, and \<open>ObjectToNumber\<close> and \<open>ObjectToString\<close> are \<open>Number(o)\<close> and \<open>String(o)\<close> on
  an array or an object, which may throw (an object whose own \<open>toString\<close> and \<open>valueOf\<close>
  are not functions).
\<close>

record runtime =
  StringToNumber :: "string \<Rightarrow> jsnum"
  NumberToString :: "jsnum \<Rightarrow> string"
  ObjectToNumber :: "jsval \<Rightarrow> error + jsnum"
  ObjectToString :: "jsval \<Rightarrow> error + string"

fun ToNumber :: "runtime \<Rightarrow> jsval \<Rightarrow> error + jsnum" where
  "ToNumber rt JUndefined = Inr NaN"
| "ToNumber rt JNull = Inr (Fin 0)"
| "ToNumber rt (JBool b) = Inr (Fin (if b then 1 else 0))"
| "ToNumber rt (JNum n) = Inr n"
| "ToNumber rt (JStr s) = Inr (StringToNumber rt s)"
| "ToNumber rt v = ObjectToNumber rt v"

fun ToString :: "runtime \<Rightarrow> jsval \<Rightarrow> error + string" where
  "ToString rt JUndefined = Inr ''undefined''"
| "ToString rt JNull = Inr ''null''"
| "ToString rt (JBool b) = Inr (if b then ''true'' else ''false'')"
| "ToString rt (JNum n) = Inr (NumberToString rt n)"
| "ToString rt (JStr s) = Inr s"
| "ToString rt v = ObjectToString rt v"

text \<open>The idiom \<open>Number(v) || 0\<close>.\<close>

definition number_or_zero :: "runtime \<Rightarrow> jsval \<Rightarrow> error + jsnum" where
  "number_or_zero rt v = (case ToNumber rt v of Inl e \<Rightarrow> Inl e | Inr n \<Rightarrow> Inr (num_or_zero n))"

text \<open>A runtime for the closed examples, none of which reaches a conversion.\<close>

definition plain_runtime :: runtime where
  "plain_runtime =
     \<lparr>StringToNumber = (\<lambda>_. NaN), NumberToString = (\<lambda>_. []),
      ObjectToNumber = (\<lambda>_. Inr NaN), ObjectToString = (\<lambda>_. Inr ''[object Object]'')\<rparr>"

subsection \<open>Strings\<close>

definition lower_char :: "char \<Rightarrow> char" where
  "lower_char c =
     (case map_of (zip ''ABCDEFGHIJKLMNOPQRSTUVWXYZ'' ''abcdefghijklmnopqrstuvwxyz'') c of
        None \<Rightarrow> c
      | Some d \<Rightarrow> d)"

definition toLowerCase :: "string \<Rightarrow> string" where
  "toLowerCase s = map lower_char s"

text \<open>\<open>s.includes(kw)\<close>: the keyword starts at some position of the string.\<close>

primrec str_includes :: "string \<Rightarrow> string \<Rightarrow> bool" where
  "str_includes [] kw = (kw = [])"
| "str_includes (c # cs) kw = (prefix kw (c # cs) \<or> str_includes cs kw)"

subsection \<open>Exceptions\<close>

text \<open>A thrown exception is the left summand; \<open>and_then\<close> runs the next statement.\<close>

definition and_then :: "error + 'a \<Rightarrow> ('a \<Rightarrow> error + 'b) \<Rightarrow> error + 'b" where
  "and_then m f = (case m of Inl e \<Rightarrow> Inl e | Inr x \<Rightarrow> f x)"

fun map_err :: "('a \<Rightarrow> error + 'b) \<Rightarrow> 'a list \<Rightarrow> error + 'b list" where
  "map_err f [] = Inr []"
| "map_err f (x # xs) =
     and_then (f x) (\<lambda>y. and_then (map_err f xs) (\<lambda>ys. Inr (y # ys)))"

text \<open>The idiom \<open>Number(v.k) || 0\<close>.\<close>

definition read_number :: "runtime \<Rightarrow> jsval \<Rightarrow> string \<Rightarrow> error + jsnum" where
  "read_number rt v k = and_then (get_prop v k) (number_or_zero rt)"

section \<open>Dates\<close>

text \<open>
  A time value is a number of milliseconds since 1970-01-01T00:00:00Z, or none for an
  invalid date. The calendar functions are those of ECMA-262 (Day, TimeWithinDay,
  YearFromTime, MonthFromTime, DateFromTime, MakeDay, MakeDate, TimeClip), computed on
  the proleptic Gregorian calendar; the local time zone is taken to be UTC.
\<close>

definition msPerDay :: int where
  "msPerDay = 86400000"

definition Day :: "int \<Rightarrow> int" where
  "Day t = t div msPerDay"

definition TimeWithinDay :: "int \<Rightarrow> int" where
  "TimeWithinDay t = t mod msPerDay"

text \<open>Day number of a calendar date (month 1 to 12), and back.\<close>

definition days_from_civil :: "int \<Rightarrow> int \<Rightarrow> int \<Rightarrow> int" where
  "days_from_civil y m d =
     (let y' = (if m \<le> 2 then y - 1 else y);
          era = y' div 400;
          yoe = y' - era * 400;
          doy = (153 * (if 2 < m then m - 3 else m + 9) + 2) div 5 + d - 1;
          doe = yoe * 365 + yoe div 4 - yoe div 100 + doy
      in era * 146097 + doe - 719468)"

definition civil_from_days :: "int \<Rightarrow> int \<times> int \<times> int" where
  "civil_from_days z0 =
     (let z = z0 + 719468;
          era = z div 146097;
          doe = z - era * 146097;
          yoe = (doe - doe div 1460 + doe div 36524 - doe div 146096) div 365;
          doy = doe - (365 * yoe + yoe div 4 - yoe div 100);
          mp = (5 * doy + 2) div 153;
          d = doy - (153 * mp + 2) div 5 + 1;
          m = (if mp < 10 then mp + 3 else mp - 9)
      in (yoe + era * 400 + (if m \<le> 2 then 1 else 0), m, d))"

definition YearFromTime :: "int \<Rightarrow> int" where
  "YearFromTime t = fst (civil_from_days (Day t))"

definition MonthFromTime :: "int \<Rightarrow> int" where
  "MonthFromTime t = fst (snd (civil_from_days (Day t))) - 1"

definition DateFromTime :: "int \<Rightarrow> int" where
  "DateFromTime t = snd (snd (civil_from_days (Day t)))"

text \<open>ToIntegerOrInfinity on a finite number truncates towards zero.\<close>

definition truncate :: "rat \<Rightarrow> int" where
  "truncate q = (if 0 \<le> q then \<lfloor>q\<rfloor> else \<lceil>q\<rceil>)"

fun MakeDay :: "int \<Rightarrow> jsnum \<Rightarrow> int \<Rightarrow> int option" where
  "MakeDay year (Fin m) date =
     (let ym = year + truncate m div 12; mn = truncate m mod 12
      in Some (days_from_civil ym (mn + 1) 1 + date - 1))"
| "MakeDay year _ date = None"

definition MakeDate :: "int \<Rightarrow> int \<Rightarrow> int" where
  "MakeDate day time = day * msPerDay + time"

definition TimeClip :: "int \<Rightarrow> int option" where
  "TimeClip tv = (if \<bar>tv\<bar> \<le> 8640000000000000 then Some tv else None)"

text \<open>\<open>d.setMonth(month)\<close> on a valid date \<open>t\<close>: the new time value of \<open>d\<close>.\<close>

definition setMonth :: "int \<Rightarrow> jsnum \<Rightarrow> int option" where
  "setMonth t month =
     (case MakeDay (YearFromTime t) month (DateFromTime t) of
        None \<Rightarrow> None
      | Some day \<Rightarrow> TimeClip (MakeDate day (TimeWithinDay t)))"

text \<open>
  \<open>d.toISOString()\<close>: a RangeError on an invalid date; a year outside 0 to 9999 is
  written with a sign and six digits.
\<close>

definition iso_year :: "int \<Rightarrow> string" where
  "iso_year y =
     (if 0 \<le> y \<and> y \<le> 9999 then pad_left 4 (string_of_nat (nat y))
      else (if y < 0 then ''-'' else ''+'') @ pad_left 6 (string_of_nat (nat \<bar>y\<bar>)))"

definition pad_int :: "nat \<Rightarrow> int \<Rightarrow> string" where
  "pad_int w i = pad_left w (string_of_nat (nat i))"

fun toISOString :: "int option \<Rightarrow> error + string" where
  "toISOString None = Inl RangeError"
| "toISOString (Some t) =
     (let ms = TimeWithinDay t
      in Inr (iso_year (YearFromTime t) @ ''-'' @ pad_int 2 (MonthFromTime t + 1) @ ''-''
              @ pad_int 2 (DateFromTime t) @ ''T'' @ pad_int 2 (ms div 3600000) @ '':''
              @ pad_int 2 (ms div 60000 mod 60) @ '':'' @ pad_int 2 (ms div 1000 mod 60) @ ''.''
              @ pad_int 3 (ms mod 1000) @ ''Z''))"

section \<open>Goal forecast\<close>

text \<open>
  \<open>computeGoalForecast(goal)\<close>, with the time value \<open>now\<close> that \<open>new Date()\<close> reads. The
  result is the object \<open>{monthsToGoal, projectedCompletionDate}\<close>.
\<close>

record forecast =
  monthsToGoal :: jsnum
  projectedCompletionDate :: jsval

definition computeGoalForecast :: "runtime \<Rightarrow> int \<Rightarrow> jsval \<Rightarrow> error + forecast" where
  "computeGoalForecast rt now goal =
     and_then (read_number rt goal ''targetAmount'') (\<lambda>target.
     and_then (read_number rt goal ''currentAmount'') (\<lambda>current.
     and_then (read_number rt goal ''monthlyContribution'') (\<lambda>contrib.
       let remaining = js_sub target current in
       if js_le remaining (Fin 0) \<or> js_le contrib (Fin 0)
       then Inr \<lparr>monthsToGoal = Fin 0, projectedCompletionDate = JNull\<rparr>
       else
         let months = js_ceil (js_div remaining contrib);
             projected = setMonth now (js_add (Fin (of_int (MonthFromTime now))) months)
         in and_then (toISOString projected) (\<lambda>iso.
              Inr \<lparr>monthsToGoal = months,
                   projectedCompletionDate = JStr (take 10 iso)\<rparr>))))"

section \<open>Category classifier\<close>

datatype category =
  Housing | FoodAndDining | Transportation | Lifestyle | HealthAndFitness | Other

text \<open>
  \<open>(v || "").toLowerCase()\<close>: a truthy value that is not a string has no such method, and
  the call throws a TypeError.
\<close>

definition lower_or_empty :: "jsval \<Rightarrow> error + string" where
  "lower_or_empty v =
     (case js_or v (JStr []) of JStr s \<Rightarrow> Inr (toLowerCase s) | _ \<Rightarrow> Inl TypeError)"

definition mapPlaidCategoryToCore :: "jsval \<Rightarrow> jsval \<Rightarrow> error + category" where
  "mapPlaidCategoryToCore primaryCategory name =
     and_then (lower_or_empty primaryCategory) (\<lambda>p.
     and_then (lower_or_empty name) (\<lambda>n.
       Inr (if str_includes p ''rent'' \<or> str_includes p ''mortgage'' \<or>
               str_includes p ''housing'' \<or> str_includes p ''utilities'' \<or>
               str_includes p ''home''
            then Housing
            else if str_includes p ''food'' \<or> str_includes p ''restaurant'' \<or>
               str_includes p ''dining'' \<or> str_includes p ''groceries'' \<or>
               str_includes p ''fast food'' \<or> str_includes n ''grill'' \<or>
               str_includes n ''cafe''
            then FoodAndDining
            else if str_includes p ''transportation'' \<or> str_includes p ''gas'' \<or>
               str_includes p ''fuel'' \<or> str_includes p ''auto'' \<or>
               str_includes p ''ride share'' \<or> str_includes p ''rideshare'' \<or>
               str_includes n ''uber'' \<or> str_includes n ''lyft''
            then Transportation
            else if str_includes p ''health'' \<or> str_includes p ''medical'' \<or>
               str_includes p ''pharmacy'' \<or> str_includes p ''gym'' \<or>
               str_includes p ''fitness''
            then HealthAndFitness
            else if str_includes p ''shopping'' \<or> str_includes p ''entertainment'' \<or>
               str_includes p ''subscription'' \<or> str_includes p ''travel'' \<or>
               str_includes p ''recreation'' \<or> str_includes p ''hobby''
            then Lifestyle
            else Other)))"

section \<open>Reading a raw transaction\<close>

text \<open>
  The primary label of a transaction:
  \<open>tx.personal_finance_category?.primary || (Array.isArray(tx.category) ? tx.category[0] : "") || ""\<close>.
\<close>

definition primary_label :: "jsval \<Rightarrow> error + jsval" where
  "primary_label tx =
     and_then (get_prop tx ''personal_finance_category'') (\<lambda>pfc.
     and_then (get_prop tx ''category'') (\<lambda>cat.
       Inr (js_or (js_or (get_prop_opt pfc ''primary'')
                         (if isArray cat then get_prop_opt cat ''0'' else JStr []))
                  (JStr []))))"

text \<open>\<open>String(v).toLowerCase()\<close>.\<close>

definition lower_string :: "runtime \<Rightarrow> jsval \<Rightarrow> error + string" where
  "lower_string rt v = and_then (ToString rt v) (\<lambda>s. Inr (toLowerCase s))"

text \<open>The income test, on the lower-cased label and name.\<close>

definition isIncome :: "string \<Rightarrow> string \<Rightarrow> bool" where
  "isIncome primaryLower nameLower =
     (str_includes primaryLower ''income'' \<or> str_includes primaryLower ''payroll'' \<or>
      str_includes nameLower ''payroll'' \<or> str_includes nameLower ''salary'' \<or>
      str_includes nameLower ''deposit'')"

section \<open>Snapshot aggregator\<close>

record sample_tx =
  s_name :: jsval
  s_amount :: jsnum
  s_date :: jsval
  s_primaryCategory :: jsval

text \<open>
  The snapshot that \<open>buildPlaidSnapshot\<close> returns. While the loop runs, the record holds
  the loop's variables \<open>totalIncome\<close>, \<open>totalSpending\<close>, \<open>categoryTotals\<close> and \<open>sample\<close>
  under the names of the fields they are returned in.
\<close>

record snapshot =
  startDate :: string
  endDate :: string
  totalIncomeEstimate :: jsnum
  totalSpendingEstimate :: jsnum
  categoryTotals :: "category \<Rightarrow> jsnum"
  sampleTransactions :: "sample_tx list"

text \<open>One turn of the loop \<open>for (const tx of txs)\<close>.\<close>

definition snapshot_step :: "runtime \<Rightarrow> snapshot \<Rightarrow> jsval \<Rightarrow> error + snapshot" where
  "snapshot_step rt acc tx =
     and_then (read_number rt tx ''amount'') (\<lambda>rawAmount.
     and_then (primary_label tx) (\<lambda>primary.
     and_then (get_prop tx ''name'') (\<lambda>nm.
       let name = js_or nm (JStr []) in
     and_then (lower_string rt primary) (\<lambda>primaryLower.
     and_then (lower_string rt name) (\<lambda>nameLower.
       let amt = js_abs rawAmount in
     and_then
       (if isIncome primaryLower nameLower
        then Inr (acc\<lparr>totalIncomeEstimate := js_add (totalIncomeEstimate acc) amt\<rparr>)
        else and_then (mapPlaidCategoryToCore primary name) (\<lambda>core.
               Inr (acc\<lparr>totalSpendingEstimate := js_add (totalSpendingEstimate acc) amt,
                        categoryTotals := (categoryTotals acc)
                          (core := js_add (categoryTotals acc core) amt)\<rparr>)))
       (\<lambda>acc'.
     and_then (get_prop tx ''date'') (\<lambda>date.
       Inr (if length (sampleTransactions acc') < 10
            then acc'\<lparr>sampleTransactions := sampleTransactions acc' @
                   [\<lparr>s_name = name, s_amount = rawAmount, s_date = date,
                     s_primaryCategory = primary\<rparr>]\<rparr>
            else acc'))))))))"

fun snapshot_loop :: "runtime \<Rightarrow> snapshot \<Rightarrow> jsval list \<Rightarrow> error + snapshot" where
  "snapshot_loop rt acc [] = Inr acc"
| "snapshot_loop rt acc (tx # txs) =
     and_then (snapshot_step rt acc tx) (\<lambda>acc'. snapshot_loop rt acc' txs)"

text \<open>The snapshot before the loop: every category at zero, no sample.\<close>

definition empty_snapshot :: "string \<Rightarrow> string \<Rightarrow> snapshot" where
  "empty_snapshot start end =
     \<lparr>startDate = start, endDate = end, totalIncomeEstimate = Fin 0,
      totalSpendingEstimate = Fin 0, categoryTotals = (\<lambda>_. Fin 0), sampleTransactions = []\<rparr>"

text \<open>
  \<open>buildPlaidSnapshot()\<close>. Its inputs are the clock, the module's \<open>lastAccessToken\<close> and
  the outcome of the provider's \<open>transactionsGet\<close> (the list
  \<open>txResp.data.transactions || []\<close>, or a rejection). Without a token the result is
  \<open>null\<close>.
\<close>

definition falsy_string :: "string option \<Rightarrow> bool" where
  "falsy_string s = (s = None \<or> s = Some [])"

definition buildPlaidSnapshot ::
  "runtime \<Rightarrow> int \<Rightarrow> string option \<Rightarrow> error + jsval list \<Rightarrow> error + snapshot option" where
  "buildPlaidSnapshot rt now lastAccessToken fetched =
     (if falsy_string lastAccessToken then Inr None
      else
        and_then (toISOString (Some now)) (\<lambda>endIso.
        and_then (toISOString (setMonth now (Fin (of_int (MonthFromTime now - 1))))) (\<lambda>startIso.
        and_then fetched (\<lambda>txs.
        and_then (snapshot_loop rt (empty_snapshot (take 10 startIso) (take 10 endIso)) txs)
          (\<lambda>s. Inr (Some s))))))"

section \<open>Transaction listing\<close>

record listed_tx =
  l_id :: jsval
  l_name :: jsval
  l_date :: jsval
  l_amount :: jsnum
  l_type :: string

text \<open>The callback of \<open>txs.map\<close> in \<open>GET /api/plaid/transactions\<close>.\<close>

definition normalize_tx :: "runtime \<Rightarrow> jsval \<Rightarrow> error + listed_tx" where
  "normalize_tx rt tx =
     and_then (read_number rt tx ''amount'') (\<lambda>rawAmount.
     and_then (primary_label tx) (\<lambda>primary.
     and_then (get_prop tx ''name'') (\<lambda>nm.
       let name = js_or nm (JStr ''Transaction'') in
     and_then (lower_string rt primary) (\<lambda>primaryLower.
     and_then (lower_string rt name) (\<lambda>nameLower.
       let income = isIncome primaryLower nameLower;
           amount = (if income then js_abs rawAmount else js_neg (js_abs rawAmount)) in
     and_then (get_prop tx ''transaction_id'') (\<lambda>tid.
     and_then (get_prop tx ''date'') (\<lambda>date.
       Inr \<lparr>l_id = tid, l_name = name, l_date = date, l_amount = amount,
            l_type = (if income then ''income'' else ''spending'')\<rparr>)))))))"

text \<open>The demo list that the endpoint answers with when no account is linked.\<close>

definition demo_transactions :: "listed_tx list" where
  "demo_transactions =
     [\<lparr>l_id = JStr ''tx1'', l_name = JStr ''Paycheck'', l_date = JStr ''2025-12-02'',
       l_amount = Fin 3200, l_type = ''income''\<rparr>,
      \<lparr>l_id = JStr ''tx2'', l_name = JStr ''Rent'', l_date = JStr ''2025-12-01'',
       l_amount = Fin (- 1600), l_type = ''bill''\<rparr>,
      \<lparr>l_id = JStr ''tx3'', l_name = JStr ''Groceries'', l_date = JStr ''2025-12-02'',
       l_amount = Fin (- 120), l_type = ''spending''\<rparr>]"

text \<open>An HTTP answer: a JSON body with status 200, or an error status with its message.\<close>

datatype 'a response = Json 'a | Status nat string

text \<open>
  \<open>GET /api/plaid/transactions\<close>, from the test of \<open>lastAccessToken\<close> on. The date window
  computed before it only parameterises the request to the provider, whose outcome is the
  argument \<open>fetched\<close>.
\<close>

definition list_transactions ::
  "runtime \<Rightarrow> string option \<Rightarrow> error + jsval list \<Rightarrow> listed_tx list response" where
  "list_transactions rt lastAccessToken fetched =
     (if \<not> falsy_string lastAccessToken
      then (case and_then fetched (map_err (normalize_tx rt)) of
              Inl _ \<Rightarrow> Status 500 ''Failed to fetch transactions''
            | Inr normalized \<Rightarrow> Json normalized)
      else Json demo_transactions)"

section \<open>Plan composer\<close>

record plan =
  categories :: "jsval list"
  goals :: "jsval list"
  surplus :: jsnum
  plannedSpending :: jsnum
  plaidSnapshot :: "snapshot option"
  orbitInsight :: string

text \<open>\<open>Array.isArray(v) ? v : []\<close>.\<close>

fun array_or_empty :: "jsval \<Rightarrow> jsval list" where
  "array_or_empty (JArr xs) = xs"
| "array_or_empty _ = []"

text \<open>\<open>categories.reduce((sum, cat) => sum + (Number(cat.planned) || 0), 0)\<close>.\<close>

fun sum_planned :: "runtime \<Rightarrow> jsnum \<Rightarrow> jsval list \<Rightarrow> error + jsnum" where
  "sum_planned rt acc [] = Inr acc"
| "sum_planned rt acc (cat # cats) =
     and_then (read_number rt cat ''planned'')
       (\<lambda>planned. sum_planned rt (js_add acc planned) cats)"

text \<open>The amount each goal without a contribution gets on the path without an API key.\<close>

definition perGoalAmount :: "jsnum \<Rightarrow> nat \<Rightarrow> jsnum" where
  "perGoalAmount baseSurplus n =
     (if js_lt (Fin 0) baseSurplus \<and> 0 < n
      then js_max (js_round (js_div (js_mul baseSurplus (Fin (1 / 5))) (Fin (of_nat n)))) (Fin 0)
      else Fin 0)"

text \<open>
  The callback of \<open>baseGoals.map\<close>: the goal's own contribution when it is a number,
  the default otherwise; then \<open>{ ...goal, monthlyContribution, ...forecast }\<close>.
\<close>

definition goal_with_contribution :: "runtime \<Rightarrow> int \<Rightarrow> jsnum \<Rightarrow> jsval \<Rightarrow> error + jsval" where
  "goal_with_contribution rt now dflt goal =
     and_then (get_prop goal ''monthlyContribution'') (\<lambda>mc.
       let monthlyContribution = (if typeof mc = ''number'' then mc else JNum dflt);
           withContribution =
             AList.update ''monthlyContribution'' monthlyContribution (own_properties goal) in
     and_then (computeGoalForecast rt now (JObj withContribution)) (\<lambda>fc.
       Inr (JObj (AList.update ''projectedCompletionDate'' (projectedCompletionDate fc)
                   (AList.update ''monthsToGoal'' (JNum (monthsToGoal fc)) withContribution)))))"

text \<open>
  The body of \<open>POST /api/orbit/plan\<close> once the budget state has passed the check, inside
  the handler's \<open>try\<close>. \<open>apiKey\<close> is \<open>process.env.OPENAI_API_KEY\<close>.
\<close>

definition build_plan ::
  "runtime \<Rightarrow> int \<Rightarrow> string option \<Rightarrow> string option \<Rightarrow> error + jsval list \<Rightarrow> jsval
    \<Rightarrow> error + plan" where
  "build_plan rt now apiKey lastAccessToken fetched state =
     and_then (read_number rt state ''income'') (\<lambda>income.
     and_then (get_prop state ''categories'') (\<lambda>cs.
     and_then (get_prop state ''goals'') (\<lambda>gs.
       let cats = array_or_empty cs; baseGoals = array_or_empty gs in
     and_then (sum_planned rt (Fin 0) cats) (\<lambda>basePlannedSpending.
       let baseSurplus = js_sub income basePlannedSpending;
           snap = (case buildPlaidSnapshot rt now lastAccessToken fetched of
                     Inl _ \<Rightarrow> None
                   | Inr s \<Rightarrow> s) in
       if falsy_string apiKey
       then
         and_then
           (map_err (goal_with_contribution rt now
                       (perGoalAmount baseSurplus (length baseGoals))) baseGoals)
           (\<lambda>goalsWithContrib.
              Inr \<lparr>categories = cats, goals = goalsWithContrib, surplus = baseSurplus,
                   plannedSpending = basePlannedSpending, plaidSnapshot = snap,
                   orbitInsight =
                     ''Orbit used a simple rule-of-thumb plan (no AI key configured).''\<rparr>)
       else
         Inr \<lparr>categories = cats, goals = baseGoals, surplus = baseSurplus,
              plannedSpending = basePlannedSpending, plaidSnapshot = snap,
              orbitInsight =
                ''Orbit route is wired. (AI planning logic can be added next.)''\<rparr>))))"

text \<open>\<open>POST /api/orbit/plan\<close> on the request body \<open>req.body\<close>.\<close>

definition orbit_plan ::
  "runtime \<Rightarrow> int \<Rightarrow> string option \<Rightarrow> string option \<Rightarrow> error + jsval list \<Rightarrow> jsval
    \<Rightarrow> plan response" where
  "orbit_plan rt now apiKey lastAccessToken fetched body =
     (let state = get_prop_opt body ''state'' in
      if \<not> truthy state \<or> typeof state \<noteq> ''object''
      then Status 400 ''Missing or invalid budget state in request body''
      else (case build_plan rt now apiKey lastAccessToken fetched state of
              Inl _ \<Rightarrow> Status 500 ''Failed to build Orbit plan''
            | Inr p \<Rightarrow> Json p))"

section \<open>The specification's vocabulary\<close>

text \<open>
  Case-insensitive substring: the keyword occurs in the text once both are lower-cased.
\<close>

definition contains_ci :: "string \<Rightarrow> string \<Rightarrow> bool" where
  "contains_ci s kw = sublist (toLowerCase kw) (toLowerCase s)"

text \<open>
  The classifier as the specification words it: five rule groups in priority order, each
  with the keywords looked for in the label and those looked for in the name; the first
  group that matches decides, and \<open>Other\<close> is the fallback.
\<close>

definition rule_groups :: "(category \<times> string list \<times> string list) list" where
  "rule_groups =
     [(Housing, [''rent'', ''mortgage'', ''housing'', ''utilities'', ''home''], []),
      (FoodAndDining, [''food'', ''restaurant'', ''dining'', ''groceries'', ''fast food''],
         [''grill'', ''cafe'']),
      (Transportation,
         [''transportation'', ''gas'', ''fuel'', ''auto'', ''ride share'', ''rideshare''],
         [''uber'', ''lyft'']),
      (HealthAndFitness, [''health'', ''medical'', ''pharmacy'', ''gym'', ''fitness''], []),
      (Lifestyle,
         [''shopping'', ''entertainment'', ''subscription'', ''travel'', ''recreation'',
          ''hobby''], [])]"

definition group_matches ::
  "string \<Rightarrow> string \<Rightarrow> category \<times> string list \<times> string list \<Rightarrow> bool" where
  "group_matches label name g =
     ((\<exists>kw \<in> set (fst (snd g)). contains_ci label kw) \<or>
      (\<exists>kw \<in> set (snd (snd g)). contains_ci name kw))"

definition classify_spec :: "string \<Rightarrow> string \<Rightarrow> category" where
  "classify_spec label name =
     (case find (group_matches label name) rule_groups of
        None \<Rightarrow> Other
      | Some g \<Rightarrow> fst g)"

text \<open>
  An argument of the classifier's contract, \<open>string | absent\<close>: a string, or a value that
  \<open>||\<close> replaces by the empty string. \<open>text_of\<close> is the text it stands for.
\<close>

definition string_or_absent :: "jsval \<Rightarrow> bool" where
  "string_or_absent v = (case v of JStr _ \<Rightarrow> True | _ \<Rightarrow> \<not> truthy v)"

definition text_of :: "jsval \<Rightarrow> string" where
  "text_of v = (case v of JStr s \<Rightarrow> s | _ \<Rightarrow> [])"

text \<open>
  The income test as the specification words it, on the label and the name of a
  transaction.
\<close>

definition income_spec :: "string \<Rightarrow> string \<Rightarrow> bool" where
  "income_spec label name =
     (contains_ci label ''income'' \<or> contains_ci label ''payroll'' \<or>
      contains_ci name ''payroll'' \<or> contains_ci name ''salary'' \<or>
      contains_ci name ''deposit'')"

text \<open>
  What the programs read from a raw transaction: the text of its primary label, the text
  of its name, and its raw amount \<open>Number(tx.amount) || 0\<close>.
\<close>

definition tx_label_text :: "runtime \<Rightarrow> jsval \<Rightarrow> error + string" where
  "tx_label_text rt tx = and_then (primary_label tx) (ToString rt)"

definition tx_name_text :: "runtime \<Rightarrow> jsval \<Rightarrow> error + string" where
  "tx_name_text rt tx =
     and_then (get_prop tx ''name'') (\<lambda>nm. ToString rt (js_or nm (JStr [])))"

definition tx_raw_amount :: "runtime \<Rightarrow> jsval \<Rightarrow> error + jsnum" where
  "tx_raw_amount rt tx = read_number rt tx ''amount''"

text \<open>
  The kind of a transaction in the aggregator: no category for income, the classifier's
  category for spending.
\<close>

definition tx_kind :: "runtime \<Rightarrow> jsval \<Rightarrow> error + category option" where
  "tx_kind rt tx =
     and_then (primary_label tx) (\<lambda>primary.
     and_then (get_prop tx ''name'') (\<lambda>nm.
     and_then (lower_string rt primary) (\<lambda>primaryLower.
     and_then (lower_string rt (js_or nm (JStr []))) (\<lambda>nameLower.
       if isIncome primaryLower nameLower then Inr None
       else and_then (mapPlaidCategoryToCore primary (js_or nm (JStr [])))
              (\<lambda>core. Inr (Some core))))))"

text \<open>The magnitude of a transaction, \<open>Math.abs\<close> of its raw amount.\<close>

definition magnitude :: "runtime \<Rightarrow> jsval \<Rightarrow> jsnum" where
  "magnitude rt tx = (case tx_raw_amount rt tx of Inl _ \<Rightarrow> NaN | Inr raw \<Rightarrow> js_abs raw)"

definition js_sum :: "jsnum list \<Rightarrow> jsnum" where
  "js_sum xs = foldr js_add xs (Fin 0)"

text \<open>The six keys of \<open>categoryTotals\<close>, in the order of the object literal.\<close>

definition core_categories :: "category list" where
  "core_categories =
     [Housing, FoodAndDining, Transportation, Lifestyle, HealthAndFitness, Other]"

text \<open>The raw fields that the sample keeps of a transaction.\<close>

definition sample_entry :: "runtime \<Rightarrow> jsval \<Rightarrow> error + sample_tx" where
  "sample_entry rt tx =
     and_then (tx_raw_amount rt tx) (\<lambda>raw.
     and_then (primary_label tx) (\<lambda>primary.
     and_then (get_prop tx ''name'') (\<lambda>nm.
     and_then (get_prop tx ''date'') (\<lambda>date.
       Inr \<lparr>s_name = js_or nm (JStr []), s_amount = raw, s_date = date,
            s_primaryCategory = primary\<rparr>))))"

text \<open>
  A transaction that the aggregator can read: its amount converts and its kind is
  decided, without an exception.
\<close>

definition readable :: "runtime \<Rightarrow> jsval \<Rightarrow> bool" where
  "readable rt tx =
     (case (tx_raw_amount rt tx, tx_kind rt tx) of (Inr _, Inr _) \<Rightarrow> True | _ \<Rightarrow> False)"

text \<open>
  The default contribution as the specification writes it, for a surplus and a number of
  goals: \<open>max(round(surplus * 0.2 / count), 0)\<close>.
\<close>

definition default_contribution :: "jsnum \<Rightarrow> nat \<Rightarrow> jsnum" where
  "default_contribution s n =
     js_max (js_round (js_div (js_mul s (Fin (1 / 5))) (Fin (of_nat n)))) (Fin 0)"

text \<open>
  A goal that lacks an explicit numeric contribution, and the specification's
  \<open>goalCountNeedingDefault\<close>.
\<close>

definition lacks_contribution :: "jsval \<Rightarrow> bool" where
  "lacks_contribution goal =
     (case get_prop goal ''monthlyContribution'' of
        Inl _ \<Rightarrow> True
      | Inr mc \<Rightarrow> typeof mc \<noteq> ''number'')"

definition goalCountNeedingDefault :: "jsval list \<Rightarrow> nat" where
  "goalCountNeedingDefault gs = length (filter lacks_contribution gs)"

text \<open>The value \<open>v\<close> has the own property \<open>k\<close>, and its value is \<open>x\<close>.\<close>

definition has_own :: "jsval \<Rightarrow> string \<Rightarrow> jsval \<Rightarrow> bool" where
  "has_own v k x = (map_of (own_properties v) k = Some x)"

text \<open>The body of an answer, when it has one.\<close>

definition json_of :: "'a response \<Rightarrow> 'a option" where
  "json_of r = (case r of Json x \<Rightarrow> Some x | Status _ _ \<Rightarrow> None)"

definition is_json :: "'a response \<Rightarrow> bool" where
  "is_json r = (case r of Json _ \<Rightarrow> True | Status _ _ \<Rightarrow> False)"

section \<open>Worked inputs\<close>

text \<open>
  The clock of the examples is 2026-11-03T00:00:00.000Z. The transactions are a rent
  payment, the payroll deposit of the specification's example (upstream sign negative),
  and a cafe purchase that carries only a legacy category list.
\<close>

definition example_now :: int where
  "example_now = 1793664000000"

definition example_token :: "string option" where
  "example_token = Some ''access-sandbox-1''"

definition payroll_transaction :: jsval where
  "payroll_transaction =
     JObj [(''transaction_id'', JStr ''t2''), (''amount'', JNum (Fin (- 2500))),
           (''name'', JStr ''ACME CORP DIRECT DEP''), (''date'', JStr ''2026-10-02''),
           (''personal_finance_category'', JObj [(''primary'', JStr ''PAYROLL'')])]"

definition example_transactions :: "jsval list" where
  "example_transactions =
     [JObj [(''transaction_id'', JStr ''t1''), (''amount'', JNum (Fin 1600)),
            (''name'', JStr ''Rent payment''), (''date'', JStr ''2026-10-01''),
            (''personal_finance_category'', JObj [(''primary'', JStr ''RENT_AND_UTILITIES'')])],
      payroll_transaction,
      JObj [(''transaction_id'', JStr ''t3''), (''amount'', JNum (Fin (91 / 2))),
            (''name'', JStr ''Blue Cafe''), (''date'', JStr ''2026-10-03''),
            (''category'', JArr [JStr ''Shops''])]]"

definition fifteen_transactions :: "jsval list" where
  "fifteen_transactions =
     example_transactions @ replicate 12 (JObj [(''amount'', JNum (Fin 5))])"

definition example_listing :: "listed_tx list" where
  "example_listing =
     [\<lparr>l_id = JStr ''t1'', l_name = JStr ''Rent payment'', l_date = JStr ''2026-10-01'',
       l_amount = Fin (- 1600), l_type = ''spending''\<rparr>,
      \<lparr>l_id = JStr ''t2'', l_name = JStr ''ACME CORP DIRECT DEP'', l_date = JStr ''2026-10-02'',
       l_amount = Fin 2500, l_type = ''income''\<rparr>,
      \<lparr>l_id = JStr ''t3'', l_name = JStr ''Blue Cafe'', l_date = JStr ''2026-10-03'',
       l_amount = Fin (- (91 / 2)), l_type = ''spending''\<rparr>]"

text \<open>
  Budget states. \<open>example_body\<close> is the specification's example: income 5000, planned
  spending 4000, two goals without a contribution. \<open>mixed_goals\<close> has one goal with an
  explicit contribution and one without; \<open>typed_goals\<close> has contributions that are a
  numeric string, NaN, the number 25 and a boolean.
\<close>

definition budget_body :: "jsnum \<Rightarrow> jsval list \<Rightarrow> jsval list \<Rightarrow> jsval" where
  "budget_body income cats gs =
     JObj [(''state'', JObj [(''income'', JNum income), (''categories'', JArr cats),
                            (''goals'', JArr gs)])]"

definition example_goals :: "jsval list" where
  "example_goals =
     [JObj [(''targetAmount'', JNum (Fin 1200))],
      JObj [(''targetAmount'', JNum (Fin 1000)), (''currentAmount'', JNum (Fin 400))]]"

definition example_body :: jsval where
  "example_body =
     budget_body (Fin 5000) [JObj [(''planned'', JNum (Fin 4000))]] example_goals"

definition example_goals_planned :: "jsval list" where
  "example_goals_planned =
     [JObj [(''targetAmount'', JNum (Fin 1200)), (''monthlyContribution'', JNum (Fin 100)),
            (''monthsToGoal'', JNum (Fin 12)),
            (''projectedCompletionDate'', JStr ''2027-11-03'')],
      JObj [(''targetAmount'', JNum (Fin 1000)), (''currentAmount'', JNum (Fin 400)),
            (''monthlyContribution'', JNum (Fin 100)), (''monthsToGoal'', JNum (Fin 6)),
            (''projectedCompletionDate'', JStr ''2027-05-03'')]]"

definition mixed_goals :: "jsval list" where
  "mixed_goals =
     [JObj [(''targetAmount'', JNum (Fin 5000)), (''monthlyContribution'', JNum (Fin 50))],
      JObj [(''targetAmount'', JNum (Fin 1200))]]"

definition mixed_goals_planned :: "jsval list" where
  "mixed_goals_planned =
     [JObj [(''targetAmount'', JNum (Fin 5000)), (''monthlyContribution'', JNum (Fin 50)),
            (''monthsToGoal'', JNum (Fin 100)),
            (''projectedCompletionDate'', JStr ''2035-03-03'')],
      JObj [(''targetAmount'', JNum (Fin 1200)), (''monthlyContribution'', JNum (Fin 100)),
            (''monthsToGoal'', JNum (Fin 12)),
            (''projectedCompletionDate'', JStr ''2027-11-03'')]]"

definition typed_goals :: "jsval list" where
  "typed_goals =
     [JObj [(''targetAmount'', JNum (Fin 1200)), (''monthlyContribution'', JStr ''100'')],
      JObj [(''targetAmount'', JNum (Fin 1200)), (''monthlyContribution'', JNum NaN)],
      JObj [(''targetAmount'', JNum (Fin 1200)), (''monthlyContribution'', JNum (Fin 25))],
      JObj [(''targetAmount'', JNum (Fin 1200)), (''monthlyContribution'', JBool True)]]"

section \<open>Auxiliary facts\<close>

lemma and_then_Inr [simp]: "and_then (Inr x) f = f x"
  by (simp add: and_then_def)

lemma and_then_Inl [simp]: "and_then (Inl e) f = Inl e"
  by (simp add: and_then_def)

lemma str_includes_sublist: "str_includes s kw = sublist kw s"
  by (induction s) (auto simp: sublist_Cons_right)

lemma lower_or_empty_text:
  "string_or_absent v \<Longrightarrow> lower_or_empty v = Inr (toLowerCase (text_of v))"
  by (cases v)
    (auto simp: string_or_absent_def lower_or_empty_def js_or_def text_of_def toLowerCase_def)

lemma and_then_eq_Inr: "and_then m f = Inr y \<longleftrightarrow> (\<exists>x. m = Inr x \<and> f x = Inr y)"
  by (cases m) simp_all

lemma js_add_commute: "js_add a b = js_add b a"
  by (cases a; cases b) simp_all

lemma js_add_assoc: "js_add (js_add a b) c = js_add a (js_add b c)"
  by (cases a; cases b; cases c) simp_all

lemma js_add_left_commute: "js_add a (js_add b c) = js_add b (js_add a c)"
  by (cases a; cases b; cases c) simp_all

lemma js_add_zero [simp]: "js_add a (Fin 0) = a" "js_add (Fin 0) a = a"
  by (cases a; simp)+

lemmas js_add_ac = js_add_assoc js_add_commute js_add_left_commute

lemma js_sum_update:
  "js_sum (map (f(c := js_add (f c) m)) core_categories) =
   js_add (js_sum (map f core_categories)) m"
  by (cases c) (simp_all add: core_categories_def js_sum_def js_add_ac)

lemma get_prop_total: "get_prop v k = Inr x \<Longrightarrow> \<exists>y. get_prop v k' = Inr y"
  by (cases v) simp_all

lemma snapshot_step_result:
  assumes "snapshot_step rt acc tx = Inr acc'"
  shows "\<exists>raw k e. tx_raw_amount rt tx = Inr raw \<and> tx_kind rt tx = Inr k \<and>
           sample_entry rt tx = Inr e \<and>
           totalIncomeEstimate acc' =
             (if k = None then js_add (totalIncomeEstimate acc) (js_abs raw)
              else totalIncomeEstimate acc) \<and>
           totalSpendingEstimate acc' =
             (if k = None then totalSpendingEstimate acc
              else js_add (totalSpendingEstimate acc) (js_abs raw)) \<and>
           categoryTotals acc' =
             (case k of
                None \<Rightarrow> categoryTotals acc
              | Some core \<Rightarrow>
                  (categoryTotals acc)(core := js_add (categoryTotals acc core) (js_abs raw))) \<and>
           sampleTransactions acc' =
             (if length (sampleTransactions acc) < 10
              then sampleTransactions acc @ [e] else sampleTransactions acc)"
proof -
  from assms obtain raw primary nm pl nl acc1 date where
    raw: "read_number rt tx ''amount'' = Inr raw" and
    p: "primary_label tx = Inr primary" and nm: "get_prop tx ''name'' = Inr nm" and
    pl: "lower_string rt primary = Inr pl" and
    nl: "lower_string rt (js_or nm (JStr [])) = Inr nl" and
    acc1: "(if isIncome pl nl
            then Inr (acc\<lparr>totalIncomeEstimate := js_add (totalIncomeEstimate acc) (js_abs raw)\<rparr>)
            else and_then (mapPlaidCategoryToCore primary (js_or nm (JStr []))) (\<lambda>core.
               Inr (acc\<lparr>totalSpendingEstimate := js_add (totalSpendingEstimate acc) (js_abs raw),
                        categoryTotals := (categoryTotals acc)
                          (core := js_add (categoryTotals acc core) (js_abs raw))\<rparr>))) = Inr acc1" and
    d: "get_prop tx ''date'' = Inr date" and
    acc': "acc' = (if length (sampleTransactions acc1) < 10
            then acc1\<lparr>sampleTransactions := sampleTransactions acc1 @
                   [\<lparr>s_name = js_or nm (JStr []), s_amount = raw, s_date = date,
                     s_primaryCategory = primary\<rparr>]\<rparr>
            else acc1)"
    by (auto simp: snapshot_step_def and_then_eq_Inr Let_def)
  have e: "sample_entry rt tx = Inr \<lparr>s_name = js_or nm (JStr []), s_amount = raw,
             s_date = date, s_primaryCategory = primary\<rparr>"
    by (simp add: sample_entry_def tx_raw_amount_def raw p nm d)
  show ?thesis
  proof (cases "isIncome pl nl")
    case True
    then have "tx_kind rt tx = Inr None"
      by (simp add: tx_kind_def p nm pl nl)
    moreover from True acc1 have
      "acc1 = acc\<lparr>totalIncomeEstimate := js_add (totalIncomeEstimate acc) (js_abs raw)\<rparr>"
      by simp
    ultimately show ?thesis
      using raw e acc' by (auto simp: tx_raw_amount_def)
  next
    case False
    with acc1 obtain core where
      core: "mapPlaidCategoryToCore primary (js_or nm (JStr [])) = Inr core" and
      a1: "acc1 = acc\<lparr>totalSpendingEstimate := js_add (totalSpendingEstimate acc) (js_abs raw),
                        categoryTotals := (categoryTotals acc)
                          (core := js_add (categoryTotals acc core) (js_abs raw))\<rparr>"
      by (auto simp: and_then_eq_Inr)
    from False core have "tx_kind rt tx = Inr (Some core)"
      by (simp add: tx_kind_def p nm pl nl)
    then show ?thesis
      using raw e acc' a1 by (auto simp: tx_raw_amount_def)
  qed
qed

lemma snapshot_step_total:
  assumes "tx_raw_amount rt tx = Inr raw" "tx_kind rt tx = Inr k"
  shows "\<exists>acc'. snapshot_step rt acc tx = Inr acc'"
proof -
  from assms(1) have raw: "read_number rt tx ''amount'' = Inr raw"
    by (simp add: tx_raw_amount_def)
  then obtain a where "get_prop tx ''amount'' = Inr a"
    by (auto simp: read_number_def and_then_eq_Inr)
  then obtain d where d: "get_prop tx ''date'' = Inr d"
    using get_prop_total by blast
  from assms(2) obtain primary nm pl nl where
    p: "primary_label tx = Inr primary" and nm: "get_prop tx ''name'' = Inr nm" and
    pl: "lower_string rt primary = Inr pl" and
    nl: "lower_string rt (js_or nm (JStr [])) = Inr nl" and
    k: "(if isIncome pl nl then Inr None
         else and_then (mapPlaidCategoryToCore primary (js_or nm (JStr [])))
                (\<lambda>core. Inr (Some core))) = Inr k"
    by (auto simp: tx_kind_def and_then_eq_Inr)
  show ?thesis
  proof (cases "isIncome pl nl")
    case True
    then show ?thesis
      by (simp add: snapshot_step_def raw p nm pl nl d Let_def)
  next
    case False
    with k obtain core where "mapPlaidCategoryToCore primary (js_or nm (JStr [])) = Inr core"
      by (auto simp: and_then_eq_Inr)
    with False show ?thesis
      by (simp add: snapshot_step_def raw p nm pl nl d Let_def)
  qed
qed

lemma magnitude_raw: "tx_raw_amount rt tx = Inr raw \<Longrightarrow> magnitude rt tx = js_abs raw"
  by (simp add: magnitude_def)

lemma snapshot_loop_category:
  "snapshot_loop rt acc txs = Inr s \<Longrightarrow>
   categoryTotals s c =
     js_add (categoryTotals acc c)
       (js_sum (map (magnitude rt) (filter (\<lambda>tx. tx_kind rt tx = Inr (Some c)) txs)))"
proof (induction txs arbitrary: acc)
  case Nil
  then show ?case by (simp add: js_sum_def)
next
  case (Cons tx txs)
  from Cons.prems obtain acc1 where
    step: "snapshot_step rt acc tx = Inr acc1" and rest: "snapshot_loop rt acc1 txs = Inr s"
    by (auto simp: and_then_eq_Inr)
  from snapshot_step_result [OF step] obtain raw k where
    raw: "tx_raw_amount rt tx = Inr raw" and k: "tx_kind rt tx = Inr k" and
    "categoryTotals acc1 =
       (case k of
          None \<Rightarrow> categoryTotals acc
        | Some core \<Rightarrow>
            (categoryTotals acc)(core := js_add (categoryTotals acc core) (js_abs raw)))"
    by blast
  then have c1: "categoryTotals acc1 c =
           (if k = Some c then js_add (categoryTotals acc c) (js_abs raw)
            else categoryTotals acc c)"
    by (cases k) auto
  show ?case
    unfolding Cons.IH [OF rest] c1
    by (simp add: k magnitude_raw [OF raw] js_sum_def js_add_assoc)
qed

lemma snapshot_loop_spending:
  "snapshot_loop rt acc txs = Inr s \<Longrightarrow>
   totalSpendingEstimate acc = js_sum (map (categoryTotals acc) core_categories) \<Longrightarrow>
   totalSpendingEstimate s = js_sum (map (categoryTotals s) core_categories)"
proof (induction txs arbitrary: acc)
  case Nil
  then show ?case by simp
next
  case (Cons tx txs)
  from Cons.prems(1) obtain acc1 where
    step: "snapshot_step rt acc tx = Inr acc1" and rest: "snapshot_loop rt acc1 txs = Inr s"
    by (auto simp: and_then_eq_Inr)
  from snapshot_step_result [OF step] obtain raw k where
    "totalSpendingEstimate acc1 =
       (if k = None then totalSpendingEstimate acc
        else js_add (totalSpendingEstimate acc) (js_abs raw))"
    "categoryTotals acc1 =
       (case k of
          None \<Rightarrow> categoryTotals acc
        | Some core \<Rightarrow>
            (categoryTotals acc)(core := js_add (categoryTotals acc core) (js_abs raw)))"
    by blast
  with Cons.prems(2)
  have "totalSpendingEstimate acc1 = js_sum (map (categoryTotals acc1) core_categories)"
    by (cases k) (simp_all add: js_sum_update)
  then show ?case
    by (rule Cons.IH [OF rest])
qed

lemma snapshot_loop_income:
  "snapshot_loop rt acc txs = Inr s \<Longrightarrow>
   totalIncomeEstimate s =
     js_add (totalIncomeEstimate acc)
       (js_sum (map (magnitude rt) (filter (\<lambda>tx. tx_kind rt tx = Inr None) txs)))"
proof (induction txs arbitrary: acc)
  case Nil
  then show ?case by (simp add: js_sum_def)
next
  case (Cons tx txs)
  from Cons.prems obtain acc1 where
    step: "snapshot_step rt acc tx = Inr acc1" and rest: "snapshot_loop rt acc1 txs = Inr s"
    by (auto simp: and_then_eq_Inr)
  from snapshot_step_result [OF step] obtain raw k where
    raw: "tx_raw_amount rt tx = Inr raw" and k: "tx_kind rt tx = Inr k" and
    c1: "totalIncomeEstimate acc1 =
           (if k = None then js_add (totalIncomeEstimate acc) (js_abs raw)
            else totalIncomeEstimate acc)"
    by blast
  show ?case
    unfolding Cons.IH [OF rest] c1
    by (simp add: k magnitude_raw [OF raw] js_sum_def js_add_assoc)
qed

lemma snapshot_loop_outflow:
  "snapshot_loop rt acc txs = Inr s \<Longrightarrow>
   totalSpendingEstimate s =
     js_add (totalSpendingEstimate acc)
       (js_sum (map (magnitude rt) (filter (\<lambda>tx. tx_kind rt tx \<noteq> Inr None) txs)))"
proof (induction txs arbitrary: acc)
  case Nil
  then show ?case by (simp add: js_sum_def)
next
  case (Cons tx txs)
  from Cons.prems obtain acc1 where
    step: "snapshot_step rt acc tx = Inr acc1" and rest: "snapshot_loop rt acc1 txs = Inr s"
    by (auto simp: and_then_eq_Inr)
  from snapshot_step_result [OF step] obtain raw k where
    raw: "tx_raw_amount rt tx = Inr raw" and k: "tx_kind rt tx = Inr k" and
    c1: "totalSpendingEstimate acc1 =
           (if k = None then totalSpendingEstimate acc
            else js_add (totalSpendingEstimate acc) (js_abs raw))"
    by blast
  show ?case
    unfolding Cons.IH [OF rest] c1
    by (simp add: k magnitude_raw [OF raw] js_sum_def js_add_assoc)
qed

lemma snapshot_loop_sample:
  "snapshot_loop rt acc txs = Inr s \<Longrightarrow>
   \<exists>es. map_err (sample_entry rt) (take (10 - length (sampleTransactions acc)) txs) = Inr es \<and>
        sampleTransactions s = sampleTransactions acc @ es"
proof (induction txs arbitrary: acc)
  case Nil
  then show ?case by simp
next
  case (Cons tx txs)
  from Cons.prems obtain acc1 where
    step: "snapshot_step rt acc tx = Inr acc1" and rest: "snapshot_loop rt acc1 txs = Inr s"
    by (auto simp: and_then_eq_Inr)
  from snapshot_step_result [OF step] obtain e where
    e: "sample_entry rt tx = Inr e" and
    s1: "sampleTransactions acc1 =
           (if length (sampleTransactions acc) < 10
            then sampleTransactions acc @ [e] else sampleTransactions acc)"
    by blast
  from Cons.IH [OF rest] obtain es where
    es: "map_err (sample_entry rt) (take (10 - length (sampleTransactions acc1)) txs) = Inr es"
    and s: "sampleTransactions s = sampleTransactions acc1 @ es"
    by blast
  show ?case
  proof (cases "length (sampleTransactions acc) < 10")
    case True
    then obtain m where m: "10 - length (sampleTransactions acc) = Suc m"
      by (cases "10 - length (sampleTransactions acc)") auto
    with True s1 have "10 - length (sampleTransactions acc1) = m"
      by simp
    with es s s1 True e m show ?thesis
      by simp
  next
    case False
    with es s s1 show ?thesis
      by simp
  qed
qed

lemma snapshot_loop_total:
  "\<forall>tx \<in> set txs. readable rt tx \<Longrightarrow> \<exists>s. snapshot_loop rt acc txs = Inr s"
proof (induction txs arbitrary: acc)
  case Nil
  then show ?case by simp
next
  case (Cons tx txs)
  then have "readable rt tx" by simp
  then obtain raw k where "tx_raw_amount rt tx = Inr raw" "tx_kind rt tx = Inr k"
    by (auto simp: readable_def split: sum.splits)
  then obtain acc1 where "snapshot_step rt acc tx = Inr acc1"
    using snapshot_step_total by blast
  moreover from Cons obtain s where "snapshot_loop rt acc1 txs = Inr s"
    by fastforce
  ultimately show ?case by auto
qed

lemma map_err_length: "map_err f xs = Inr ys \<Longrightarrow> length ys = length xs"
  by (induction xs arbitrary: ys) (auto simp: and_then_eq_Inr)

lemma map_err_nth:
  "map_err f xs = Inr ys \<Longrightarrow> i < length xs \<Longrightarrow> f (xs ! i) = Inr (ys ! i)"
proof (induction xs arbitrary: ys i)
  case Nil
  then show ?case by simp
next
  case (Cons x xs)
  then show ?case
    by (cases i) (auto simp: and_then_eq_Inr)
qed

lemma buildPlaidSnapshot_loop:
  "buildPlaidSnapshot rt now tok (Inr txs) = Inr (Some s) \<Longrightarrow>
   \<exists>a b. snapshot_loop rt (empty_snapshot a b) txs = Inr s"
  by (auto simp: buildPlaidSnapshot_def and_then_eq_Inr split: if_splits)

lemma toISOString_valid: "\<exists>a. toISOString (Some t) = Inr a"
  by (simp add: Let_def)

lemma buildPlaidSnapshot_total:
  assumes "\<not> falsy_string tok"
    and "setMonth now (Fin (of_int (MonthFromTime now - 1))) = Some t"
    and "\<forall>tx \<in> set txs. readable rt tx"
  shows "\<exists>s. buildPlaidSnapshot rt now tok (Inr txs) = Inr (Some s)"
proof -
  obtain a where a: "toISOString (Some now) = Inr a"
    using toISOString_valid by blast
  obtain b where b: "toISOString (Some t) = Inr b"
    using toISOString_valid by blast
  from snapshot_loop_total [OF assms(3)] obtain s where
    "snapshot_loop rt (empty_snapshot (take 10 b) (take 10 a)) txs = Inr s"
    by blast
  with assms(1,2) a b show ?thesis
    by (simp add: buildPlaidSnapshot_def)
qed

lemma isIncome_spec: "isIncome (toLowerCase label) (toLowerCase name) = income_spec label name"
  by (simp add: isIncome_def income_spec_def contains_ci_def str_includes_sublist
      toLowerCase_def[of "_ # _"] toLowerCase_def[of "[]"] lower_char_def)

lemma isIncome_default_name:
  "isIncome pl (toLowerCase ''Transaction'') = isIncome pl (toLowerCase [])"
  by (simp add: isIncome_def toLowerCase_def lower_char_def)

lemma lower_string_default_name:
  assumes "lower_string rt (js_or nm (JStr [])) = Inr nl"
  shows "\<exists>nl'. lower_string rt (js_or nm (JStr ''Transaction'')) = Inr nl' \<and>
           isIncome pl nl' = isIncome pl nl"
proof (cases "truthy nm")
  case True
  with assms show ?thesis by (simp add: js_or_def)
next
  case False
  with assms have "nl = toLowerCase []"
    by (auto simp: js_or_def lower_string_def)
  with False show ?thesis
    by (simp add: js_or_def lower_string_def isIncome_default_name)
qed

lemma tx_texts:
  assumes "tx_label_text rt tx = Inr label" "tx_name_text rt tx = Inr name"
  shows "\<exists>primary nm. primary_label tx = Inr primary \<and> get_prop tx ''name'' = Inr nm \<and>
           lower_string rt primary = Inr (toLowerCase label) \<and>
           lower_string rt (js_or nm (JStr [])) = Inr (toLowerCase name)"
  using assms
  by (auto simp: tx_label_text_def tx_name_text_def lower_string_def and_then_eq_Inr)

lemma normalize_tx_result:
  assumes raw: "tx_raw_amount rt tx = Inr raw"
    and label: "tx_label_text rt tx = Inr label"
    and name: "tx_name_text rt tx = Inr name"
  shows "\<exists>r. normalize_tx rt tx = Inr r \<and>
           l_type r = (if income_spec label name then ''income'' else ''spending'') \<and>
           l_amount r = (if income_spec label name then js_abs raw else js_neg (js_abs raw))"
proof -
  from tx_texts [OF label name] obtain primary nm where
    p: "primary_label tx = Inr primary" and nm: "get_prop tx ''name'' = Inr nm" and
    pl: "lower_string rt primary = Inr (toLowerCase label)" and
    nl: "lower_string rt (js_or nm (JStr [])) = Inr (toLowerCase name)"
    by blast
  from lower_string_default_name [OF nl, of "toLowerCase label"] obtain nl' where
    nl': "lower_string rt (js_or nm (JStr ''Transaction'')) = Inr nl'" and
    inc: "isIncome (toLowerCase label) nl' = income_spec label name"
    by (auto simp: isIncome_spec)
  from nm obtain tid d where
    tid: "get_prop tx ''transaction_id'' = Inr tid" and d: "get_prop tx ''date'' = Inr d"
    using get_prop_total by blast
  from raw have raw': "read_number rt tx ''amount'' = Inr raw"
    by (simp add: tx_raw_amount_def)
  show ?thesis
    by (simp add: normalize_tx_def raw' p nm pl nl' inc tid d Let_def)
qed

lemma normalize_tx_reads:
  assumes "normalize_tx rt tx = Inr r"
  shows "\<exists>raw label name. tx_raw_amount rt tx = Inr raw \<and> tx_label_text rt tx = Inr label \<and>
           tx_name_text rt tx = Inr name"
proof -
  from assms obtain raw primary nm pl nl where
    raw: "read_number rt tx ''amount'' = Inr raw" and
    p: "primary_label tx = Inr primary" and nm: "get_prop tx ''name'' = Inr nm" and
    pl: "lower_string rt primary = Inr pl" and
    nl: "lower_string rt (js_or nm (JStr ''Transaction'')) = Inr nl"
    by (auto simp: normalize_tx_def and_then_eq_Inr Let_def)
  from pl obtain label where label: "ToString rt primary = Inr label"
    by (auto simp: lower_string_def and_then_eq_Inr)
  from nl obtain name where name: "ToString rt (js_or nm (JStr [])) = Inr name"
    by (cases "truthy nm") (auto simp: lower_string_def and_then_eq_Inr js_or_def)
  from raw p nm label name show ?thesis
    by (simp add: tx_raw_amount_def tx_label_text_def tx_name_text_def)
qed

lemma tx_kind_income:
  assumes label: "tx_label_text rt tx = Inr label" and name: "tx_name_text rt tx = Inr name"
  shows "tx_kind rt tx = Inr None \<longleftrightarrow> income_spec label name"
proof -
  from tx_texts [OF label name] obtain primary nm where
    "primary_label tx = Inr primary" "get_prop tx ''name'' = Inr nm"
    "lower_string rt primary = Inr (toLowerCase label)"
    "lower_string rt (js_or nm (JStr [])) = Inr (toLowerCase name)"
    by blast
  then show ?thesis
    by (cases "mapPlaidCategoryToCore primary (js_or nm (JStr []))")
      (simp_all add: tx_kind_def isIncome_spec)
qed

lemma num_or_zero_not_NaN: "num_or_zero n \<noteq> NaN"
  by (cases n) (simp_all add: num_or_zero_def)

lemma number_or_zero_not_NaN: "number_or_zero rt v = Inr n \<Longrightarrow> n \<noteq> NaN"
  by (cases "ToNumber rt v") (auto simp: number_or_zero_def num_or_zero_not_NaN)

lemma read_number_not_NaN: "read_number rt v k = Inr n \<Longrightarrow> n \<noteq> NaN"
  by (auto simp: read_number_def and_then_eq_Inr dest: number_or_zero_not_NaN)

lemma js_abs_sign: "n \<noteq> NaN \<Longrightarrow> js_le (Fin 0) (js_abs n) \<and> js_le (js_neg (js_abs n)) (Fin 0)"
  by (cases n) simp_all

lemma perGoalAmount_default:
  "js_lt (Fin 0) s \<Longrightarrow> 0 < n \<Longrightarrow> perGoalAmount s n = default_contribution s n"
  by (simp add: perGoalAmount_def default_contribution_def)

lemma default_contribution_finite:
  "0 < n \<Longrightarrow> default_contribution (Fin q) n =
     Fin (of_int (max \<lfloor>q / 5 / of_nat n + 1 / 2\<rfloor> 0))"
  by (simp add: default_contribution_def max_def)

lemma goal_with_contribution_result:
  assumes "goal_with_contribution rt now d g = Inr out"
  shows "\<exists>mc fc. get_prop g ''monthlyContribution'' = Inr mc \<and>
     computeGoalForecast rt now
       (JObj (AList.update ''monthlyContribution''
                (if typeof mc = ''number'' then mc else JNum d) (own_properties g))) = Inr fc \<and>
     out = JObj (AList.update ''projectedCompletionDate'' (projectedCompletionDate fc)
             (AList.update ''monthsToGoal'' (JNum (monthsToGoal fc))
               (AList.update ''monthlyContribution''
                  (if typeof mc = ''number'' then mc else JNum d) (own_properties g))))"
  using assms by (auto simp: goal_with_contribution_def and_then_eq_Inr Let_def)

lemma get_prop_JObj:
  "get_prop (JObj kvs) k = Inr (case map_of kvs k of None \<Rightarrow> JUndefined | Some v \<Rightarrow> v)"
  by simp

lemma goal_with_contribution_fields:
  assumes "goal_with_contribution rt now d g = Inr out"
  shows "\<exists>mc fc. get_prop g ''monthlyContribution'' = Inr mc \<and>
     computeGoalForecast rt now
       (JObj (AList.update ''monthlyContribution''
                (if typeof mc = ''number'' then mc else JNum d) (own_properties g))) = Inr fc \<and>
     get_prop out ''monthlyContribution'' = Inr (if typeof mc = ''number'' then mc else JNum d) \<and>
     get_prop out ''monthsToGoal'' = Inr (JNum (monthsToGoal fc)) \<and>
     get_prop out ''projectedCompletionDate'' = Inr (projectedCompletionDate fc) \<and>
     (\<forall>k v. map_of (own_properties g) k = Some v \<and> k \<noteq> ''monthlyContribution'' \<and>
         k \<noteq> ''monthsToGoal'' \<and> k \<noteq> ''projectedCompletionDate'' \<longrightarrow>
         get_prop out k = Inr v)"
proof -
  from goal_with_contribution_result [OF assms] obtain mc fc where
    mc: "get_prop g ''monthlyContribution'' = Inr mc" and
    fc: "computeGoalForecast rt now
       (JObj (AList.update ''monthlyContribution''
                (if typeof mc = ''number'' then mc else JNum d) (own_properties g))) = Inr fc" and
    out: "out = JObj (AList.update ''projectedCompletionDate'' (projectedCompletionDate fc)
             (AList.update ''monthsToGoal'' (JNum (monthsToGoal fc))
               (AList.update ''monthlyContribution''
                  (if typeof mc = ''number'' then mc else JNum d) (own_properties g))))"
    by blast
  show ?thesis
    apply (rule exI [of _ mc], rule exI [of _ fc])
    apply (simp only: mc fc out get_prop_JObj update_conv' simp_thms)
    apply simp
    done
qed

lemma goal_with_contribution_own:
  assumes "goal_with_contribution rt now d g = Inr out"
  shows "\<exists>mc_in mc fc kvs. get_prop g ''monthlyContribution'' = Inr mc_in \<and>
     mc = (if typeof mc_in = ''number'' then mc_in else JNum d) \<and>
     typeof mc = ''number'' \<and>
     computeGoalForecast rt now
       (JObj (AList.update ''monthlyContribution'' mc (own_properties g))) = Inr fc \<and>
     out = JObj kvs \<and>
     has_own out ''monthlyContribution'' mc \<and>
     has_own out ''monthsToGoal'' (JNum (monthsToGoal fc)) \<and>
     has_own out ''projectedCompletionDate'' (projectedCompletionDate fc) \<and>
     get_prop out ''monthlyContribution'' = Inr mc \<and>
     get_prop out ''monthsToGoal'' = Inr (JNum (monthsToGoal fc)) \<and>
     get_prop out ''projectedCompletionDate'' = Inr (projectedCompletionDate fc) \<and>
     (\<forall>k v. has_own g k v \<and> k \<noteq> ''monthlyContribution'' \<and>
         k \<noteq> ''monthsToGoal'' \<and> k \<noteq> ''projectedCompletionDate'' \<longrightarrow>
         has_own out k v \<and> get_prop out k = Inr v)"
proof -
  from goal_with_contribution_result [OF assms] obtain mc_in fc where
    mc: "get_prop g ''monthlyContribution'' = Inr mc_in" and
    fc: "computeGoalForecast rt now
       (JObj (AList.update ''monthlyContribution''
                (if typeof mc_in = ''number'' then mc_in else JNum d) (own_properties g))) =
         Inr fc" and
    out: "out = JObj (AList.update ''projectedCompletionDate'' (projectedCompletionDate fc)
             (AList.update ''monthsToGoal'' (JNum (monthsToGoal fc))
               (AList.update ''monthlyContribution''
                  (if typeof mc_in = ''number'' then mc_in else JNum d) (own_properties g))))"
    by blast
  let ?mc = "if typeof mc_in = ''number'' then mc_in else JNum d"
  have ty: "typeof ?mc = ''number''" by simp
  have own: "has_own out ''monthlyContribution'' ?mc"
    "has_own out ''monthsToGoal'' (JNum (monthsToGoal fc))"
    "has_own out ''projectedCompletionDate'' (projectedCompletionDate fc)"
    by (simp_all add: has_own_def out update_conv')
  have echo: "has_own out k v" if "has_own g k v" "k \<noteq> ''monthlyContribution''"
    "k \<noteq> ''monthsToGoal''" "k \<noteq> ''projectedCompletionDate''" for k v
    using that by (simp add: has_own_def out update_conv')
  have read: "get_prop out k = Inr v" if "has_own out k v" for k v
    using that by (simp add: has_own_def out)
  from mc ty fc out own echo read show ?thesis
    by blast
qed

lemma build_plan_goals:
  assumes "build_plan rt now key tok fetched state = Inr p"
  shows "\<exists>gs. get_prop state ''goals'' = Inr gs \<and>
     (if falsy_string key
      then map_err (goal_with_contribution rt now
                      (perGoalAmount (surplus p) (length (array_or_empty gs))))
             (array_or_empty gs) = Inr (goals p)
      else goals p = array_or_empty gs)"
  using assms
  by (auto simp: build_plan_def and_then_eq_Inr Let_def split: if_splits)

lemma orbit_plan_Json:
  assumes "orbit_plan rt now key tok fetched body = Json p"
  shows "build_plan rt now key tok fetched (get_prop_opt body ''state'') = Inr p"
  using assms by (auto simp: orbit_plan_def Let_def split: if_splits sum.splits)

lemma computeGoalForecast_NaN_contribution:
  assumes "computeGoalForecast rt now g = Inr fc"
    and "get_prop g ''monthlyContribution'' = Inr (JNum NaN)"
  shows "monthsToGoal fc = Fin 0 \<and> projectedCompletionDate fc = JNull"
proof -
  from assms(2) have "read_number rt g ''monthlyContribution'' = Inr (Fin 0)"
    by (simp add: read_number_def number_or_zero_def num_or_zero_def)
  with assms(1) show ?thesis
    by (auto simp: computeGoalForecast_def and_then_eq_Inr Let_def)
qed

lemma fallback_goal:
  assumes plan: "orbit_plan rt now key tok fetched body = Json p"
    and key: "falsy_string key"
    and gs: "get_prop (get_prop_opt body ''state'') ''goals'' = Inr gs"
    and i: "i < length (array_or_empty gs)"
  shows "goal_with_contribution rt now
           (perGoalAmount (surplus p) (length (array_or_empty gs))) (array_or_empty gs ! i) =
         Inr (goals p ! i)"
proof -
  from build_plan_goals [OF orbit_plan_Json [OF plan]] key gs
  have "map_err (goal_with_contribution rt now
                      (perGoalAmount (surplus p) (length (array_or_empty gs))))
             (array_or_empty gs) = Inr (goals p)"
    by auto
  from map_err_nth [OF this i] show ?thesis .
qed

lemma length_pad_left: "w \<le> length (pad_left w s)"
  by (simp add: pad_left_def)

lemma toISOString_length:
  assumes "toISOString d = Inr isostr"
  shows "10 \<le> length isostr"
proof -
  from assms obtain t where "d = Some t"
    by (cases d) auto
  with assms have "isostr = iso_year (YearFromTime t) @ ''-'' @ pad_int 2 (MonthFromTime t + 1) @ ''-''
              @ pad_int 2 (DateFromTime t) @ ''T'' @ pad_int 2 (TimeWithinDay t div 3600000) @ '':''
              @ pad_int 2 (TimeWithinDay t div 60000 mod 60) @ '':''
              @ pad_int 2 (TimeWithinDay t div 1000 mod 60) @ ''.''
              @ pad_int 3 (TimeWithinDay t mod 1000) @ ''Z''"
    by (simp add: Let_def)
  moreover have "2 \<le> length (pad_int 2 i)" for i
    by (simp add: pad_int_def length_pad_left)
  moreover have "3 \<le> length (pad_int 3 i)" for i
    by (simp add: pad_int_def length_pad_left)
  ultimately show ?thesis
    by (simp add: add_le_mono trans_le_add2)
qed

lemma computeGoalForecast_finite:
  assumes t: "read_number rt g ''targetAmount'' = Inr (Fin t)"
    and c: "read_number rt g ''currentAmount'' = Inr (Fin c)"
    and m: "read_number rt g ''monthlyContribution'' = Inr (Fin m)"
    and fc: "computeGoalForecast rt now g = Inr fc"
  shows "(t - c \<le> 0 \<or> m \<le> 0 \<longrightarrow>
           monthsToGoal fc = Fin 0 \<and> projectedCompletionDate fc = JNull) \<and>
         (0 < t - c \<and> 0 < m \<longrightarrow>
           monthsToGoal fc = Fin (of_int \<lceil>(t - c) / m\<rceil>) \<and> 1 \<le> \<lceil>(t - c) / m\<rceil> \<and>
           (\<exists>d. projectedCompletionDate fc = JStr d \<and> length d = 10))"
proof (cases "t - c \<le> 0 \<or> m \<le> 0")
  case True
  with fc show ?thesis
    by (auto simp: computeGoalForecast_def t c m js_sub_def Let_def)
next
  case False
  then have pos: "0 < t - c" "0 < m" by auto
  then have "0 < (t - c) / m" by simp
  then have one: "1 \<le> \<lceil>(t - c) / m\<rceil>" by linarith
  from False fc obtain isostr where
    isostr: "toISOString (setMonth now (js_add (Fin (of_int (MonthFromTime now)))
            (js_ceil (js_div (js_sub (Fin t) (Fin c)) (Fin m))))) = Inr isostr" and
    res: "fc = \<lparr>monthsToGoal = js_ceil (js_div (js_sub (Fin t) (Fin c)) (Fin m)),
               projectedCompletionDate = JStr (take 10 isostr)\<rparr>"
    by (auto simp: computeGoalForecast_def t c m js_sub_def Let_def and_then_eq_Inr)
  from toISOString_length [OF isostr] have "length (take 10 isostr) = 10" by simp
  with res pos one show ?thesis
    by (simp add: js_sub_def)
qed

lemma is_json_Json: "is_json r \<Longrightarrow> \<exists>x. r = Json x"
  by (cases r) (simp_all add: is_json_def)

lemma json_of_Json [simp]: "json_of (Json x) = Some x"
  by (simp add: json_of_def)

section \<open>The claims\<close>

text \<open>
  C1 (amended). On the path without an API key, for every budget state whose plan is
  returned with a surplus above zero, a goal whose monthlyContribution is a number keeps
  it unchanged, and every other goal gets max(round(surplus * 0.2 / n), 0), where n is the
  number of all goals of the state (baseGoals.length), whether or not they carry a
  contribution.
\<close>

theorem fallback_default_contribution:
  "orbit_plan rt now key tok fetched body = Json p \<and> falsy_string key \<and>
   js_lt (Fin 0) (surplus p) \<longrightarrow>
     (\<exists>gs. get_prop (get_prop_opt body ''state'') ''goals'' = Inr gs \<and>
        length (goals p) = length (array_or_empty gs) \<and>
        (\<forall>i < length (array_or_empty gs). \<exists>mc.
           get_prop (array_or_empty gs ! i) ''monthlyContribution'' = Inr mc \<and>
           get_prop (goals p ! i) ''monthlyContribution'' =
             Inr (if typeof mc = ''number'' then mc
                  else JNum (default_contribution (surplus p) (length (array_or_empty gs))))))"
proof (intro impI, elim conjE)
  assume plan: "orbit_plan rt now key tok fetched body = Json p" and key: "falsy_string key"
    and pos: "js_lt (Fin 0) (surplus p)"
  from build_plan_goals [OF orbit_plan_Json [OF plan]] key obtain gs where
    gs: "get_prop (get_prop_opt body ''state'') ''goals'' = Inr gs" and
    m: "map_err (goal_with_contribution rt now
                      (perGoalAmount (surplus p) (length (array_or_empty gs))))
             (array_or_empty gs) = Inr (goals p)"
    by auto
  have "\<exists>mc. get_prop (array_or_empty gs ! i) ''monthlyContribution'' = Inr mc \<and>
           get_prop (goals p ! i) ''monthlyContribution'' =
             Inr (if typeof mc = ''number'' then mc
                  else JNum (default_contribution (surplus p) (length (array_or_empty gs))))"
    if i: "i < length (array_or_empty gs)" for i
  proof -
    from i have "0 < length (array_or_empty gs)" by auto
    with pos have "perGoalAmount (surplus p) (length (array_or_empty gs)) =
        default_contribution (surplus p) (length (array_or_empty gs))"
      by (rule perGoalAmount_default)
    with goal_with_contribution_fields [OF fallback_goal [OF plan key gs i]]
    show ?thesis by auto
  qed
  with gs map_err_length [OF m]
  show "\<exists>gs. get_prop (get_prop_opt body ''state'') ''goals'' = Inr gs \<and>
        length (goals p) = length (array_or_empty gs) \<and>
        (\<forall>i < length (array_or_empty gs). \<exists>mc.
           get_prop (array_or_empty gs ! i) ''monthlyContribution'' = Inr mc \<and>
           get_prop (goals p ! i) ''monthlyContribution'' =
             Inr (if typeof mc = ''number'' then mc
                  else JNum (default_contribution (surplus p) (length (array_or_empty gs)))))"
    by blast
qed

text \<open>
  The specification's example: surplus 1000 and two goals without a contribution, each
  of which receives 100.
\<close>

theorem fallback_default_contribution_witness:
  "falsy_string None \<and>
   (\<exists>p. orbit_plan plain_runtime example_now None None (Inr []) example_body = Json p \<and>
      js_lt (Fin 0) (surplus p) \<and> surplus p = Fin 1000 \<and>
      length (goals p) = 2 \<and>
      default_contribution (surplus p) 2 = Fin 100 \<and>
      get_prop (goals p ! 0) ''monthlyContribution'' = Inr (JNum (Fin 100)) \<and>
      get_prop (goals p ! 1) ''monthlyContribution'' = Inr (JNum (Fin 100)))"
proof -
  let ?r = "orbit_plan plain_runtime example_now None None (Inr []) example_body"
  have f: "falsy_string None" by (simp add: falsy_string_def)
  have "is_json ?r" by code_simp
  then obtain p where p: "?r = Json p"
    using is_json_Json by blast
  have "map_option surplus (json_of ?r) = Some (Fin 1000)" by code_simp
  with p have sp: "surplus p = Fin 1000" by simp
  have d: "default_contribution (Fin 1000) 2 = Fin 100" by code_simp
  have g: "get_prop (get_prop_opt example_body ''state'') ''goals'' = Inr (JArr example_goals)"
    by code_simp
  have m: "get_prop (example_goals ! 0) ''monthlyContribution'' = Inr JUndefined"
    "get_prop (example_goals ! 1) ''monthlyContribution'' = Inr JUndefined"
    by code_simp+
  have n: "length example_goals = 2" by code_simp
  have pos: "js_lt (Fin 0) (surplus p)" by (simp add: sp)
  from fallback_default_contribution
    [of plain_runtime example_now None None "Inr []" example_body p] p f pos
  obtain gs where
    gs: "get_prop (get_prop_opt example_body ''state'') ''goals'' = Inr gs" and
    len: "length (goals p) = length (array_or_empty gs)" and
    each: "\<And>i. i < length (array_or_empty gs) \<Longrightarrow> \<exists>mc.
       get_prop (array_or_empty gs ! i) ''monthlyContribution'' = Inr mc \<and>
       get_prop (goals p ! i) ''monthlyContribution'' =
         Inr (if typeof mc = ''number'' then mc
              else JNum (default_contribution (surplus p) (length (array_or_empty gs))))"
    by blast
  from gs g have "gs = JArr example_goals" by simp
  then have arr: "array_or_empty gs = example_goals" by simp
  from each [of 0] m(1) have o0:
    "get_prop (goals p ! 0) ''monthlyContribution'' = Inr (JNum (Fin 100))"
    by (auto simp: arr n sp d)
  from each [of 1] m(2) have o1:
    "get_prop (goals p ! 1) ''monthlyContribution'' = Inr (JNum (Fin 100))"
    by (auto simp: arr n sp d)
  from len arr n have len2: "length (goals p) = 2" by simp
  from f p pos sp len2 d o0 o1 show ?thesis by auto
qed

text \<open>
  C1 as stated divides by the number of goals that lack a contribution. With surplus
  1000, one goal with the contribution 50 and one goal without, that number is 1 and the
  stated default is 200; the program assigns 100.
\<close>

theorem default_divides_by_all_goals:
  "map_option goals
     (json_of (orbit_plan plain_runtime example_now None None (Inr [])
                 (budget_body (Fin 1000) [] mixed_goals))) = Some mixed_goals_planned \<and>
   map_option surplus
     (json_of (orbit_plan plain_runtime example_now None None (Inr [])
                 (budget_body (Fin 1000) [] mixed_goals))) = Some (Fin 1000) \<and>
   get_prop (mixed_goals_planned ! 1) ''monthlyContribution'' = Inr (JNum (Fin 100)) \<and>
   goalCountNeedingDefault mixed_goals = 1 \<and>
   default_contribution (Fin 1000) (goalCountNeedingDefault mixed_goals) = Fin 200"
  by code_simp

text \<open>
  C2 (amended). For every budget state whose plan is returned, the plan has one goal
  per input goal. Without an API key each output goal is an object that has the own
  properties monthlyContribution, monthsToGoal and projectedCompletionDate: the
  contribution is a number, the input goal's own when that is a number and the default
  otherwise; the other two are the forecast of the input goal with that contribution;
  and every other own property of the input goal is an own property of the output goal
  with the same value. With an API key the goals are the input goals unchanged, with
  nothing attached.
\<close>

theorem goals_carry_derived_fields:
  "orbit_plan rt now key tok fetched body = Json p \<longrightarrow>
     (\<exists>gs. get_prop (get_prop_opt body ''state'') ''goals'' = Inr gs \<and>
        length (goals p) = length (array_or_empty gs) \<and>
        (\<not> falsy_string key \<longrightarrow> goals p = array_or_empty gs) \<and>
        (falsy_string key \<longrightarrow>
           (\<forall>i < length (array_or_empty gs). \<exists>mc_in mc fc kvs.
              get_prop (array_or_empty gs ! i) ''monthlyContribution'' = Inr mc_in \<and>
              mc = (if typeof mc_in = ''number'' then mc_in
                    else JNum (perGoalAmount (surplus p) (length (array_or_empty gs)))) \<and>
              typeof mc = ''number'' \<and>
              computeGoalForecast rt now
                (JObj (AList.update ''monthlyContribution'' mc
                         (own_properties (array_or_empty gs ! i)))) = Inr fc \<and>
              goals p ! i = JObj kvs \<and>
              has_own (goals p ! i) ''monthlyContribution'' mc \<and>
              has_own (goals p ! i) ''monthsToGoal'' (JNum (monthsToGoal fc)) \<and>
              has_own (goals p ! i) ''projectedCompletionDate'' (projectedCompletionDate fc) \<and>
              get_prop (goals p ! i) ''monthlyContribution'' = Inr mc \<and>
              get_prop (goals p ! i) ''monthsToGoal'' = Inr (JNum (monthsToGoal fc)) \<and>
              get_prop (goals p ! i) ''projectedCompletionDate'' =
                Inr (projectedCompletionDate fc) \<and>
              (\<forall>k v. has_own (array_or_empty gs ! i) k v \<and>
                 k \<noteq> ''monthlyContribution'' \<and> k \<noteq> ''monthsToGoal'' \<and>
                 k \<noteq> ''projectedCompletionDate'' \<longrightarrow>
                 has_own (goals p ! i) k v \<and> get_prop (goals p ! i) k = Inr v))))"
proof
  assume plan: "orbit_plan rt now key tok fetched body = Json p"
  from build_plan_goals [OF orbit_plan_Json [OF plan]] obtain gs where
    gs: "get_prop (get_prop_opt body ''state'') ''goals'' = Inr gs" and
    m: "if falsy_string key
      then map_err (goal_with_contribution rt now
                      (perGoalAmount (surplus p) (length (array_or_empty gs))))
             (array_or_empty gs) = Inr (goals p)
      else goals p = array_or_empty gs"
    by blast
  have len: "length (goals p) = length (array_or_empty gs)"
    using m by (auto dest: map_err_length split: if_splits)
  have narrated: "goals p = array_or_empty gs" if "\<not> falsy_string key"
    using m that by simp
  have derived: "\<forall>i < length (array_or_empty gs). \<exists>mc_in mc fc kvs.
              get_prop (array_or_empty gs ! i) ''monthlyContribution'' = Inr mc_in \<and>
              mc = (if typeof mc_in = ''number'' then mc_in
                    else JNum (perGoalAmount (surplus p) (length (array_or_empty gs)))) \<and>
              typeof mc = ''number'' \<and>
              computeGoalForecast rt now
                (JObj (AList.update ''monthlyContribution'' mc
                         (own_properties (array_or_empty gs ! i)))) = Inr fc \<and>
              goals p ! i = JObj kvs \<and>
              has_own (goals p ! i) ''monthlyContribution'' mc \<and>
              has_own (goals p ! i) ''monthsToGoal'' (JNum (monthsToGoal fc)) \<and>
              has_own (goals p ! i) ''projectedCompletionDate'' (projectedCompletionDate fc) \<and>
              get_prop (goals p ! i) ''monthlyContribution'' = Inr mc \<and>
              get_prop (goals p ! i) ''monthsToGoal'' = Inr (JNum (monthsToGoal fc)) \<and>
              get_prop (goals p ! i) ''projectedCompletionDate'' =
                Inr (projectedCompletionDate fc) \<and>
              (\<forall>k v. has_own (array_or_empty gs ! i) k v \<and>
                 k \<noteq> ''monthlyContribution'' \<and> k \<noteq> ''monthsToGoal'' \<and>
                 k \<noteq> ''projectedCompletionDate'' \<longrightarrow>
                 has_own (goals p ! i) k v \<and> get_prop (goals p ! i) k = Inr v)"
    if key: "falsy_string key"
  proof (intro allI impI)
    fix i assume i: "i < length (array_or_empty gs)"
    show "\<exists>mc_in mc fc kvs.
              get_prop (array_or_empty gs ! i) ''monthlyContribution'' = Inr mc_in \<and>
              mc = (if typeof mc_in = ''number'' then mc_in
                    else JNum (perGoalAmount (surplus p) (length (array_or_empty gs)))) \<and>
              typeof mc = ''number'' \<and>
              computeGoalForecast rt now
                (JObj (AList.update ''monthlyContribution'' mc
                         (own_properties (array_or_empty gs ! i)))) = Inr fc \<and>
              goals p ! i = JObj kvs \<and>
              has_own (goals p ! i) ''monthlyContribution'' mc \<and>
              has_own (goals p ! i) ''monthsToGoal'' (JNum (monthsToGoal fc)) \<and>
              has_own (goals p ! i) ''projectedCompletionDate'' (projectedCompletionDate fc) \<and>
              get_prop (goals p ! i) ''monthlyContribution'' = Inr mc \<and>
              get_prop (goals p ! i) ''monthsToGoal'' = Inr (JNum (monthsToGoal fc)) \<and>
              get_prop (goals p ! i) ''projectedCompletionDate'' =
                Inr (projectedCompletionDate fc) \<and>
              (\<forall>k v. has_own (array_or_empty gs ! i) k v \<and>
                 k \<noteq> ''monthlyContribution'' \<and> k \<noteq> ''monthsToGoal'' \<and>
                 k \<noteq> ''projectedCompletionDate'' \<longrightarrow>
                 has_own (goals p ! i) k v \<and> get_prop (goals p ! i) k = Inr v)"
      by (rule goal_with_contribution_own [OF fallback_goal [OF plan key gs i]])
  qed
  show "\<exists>gs. get_prop (get_prop_opt body ''state'') ''goals'' = Inr gs \<and>
        length (goals p) = length (array_or_empty gs) \<and>
        (\<not> falsy_string key \<longrightarrow> goals p = array_or_empty gs) \<and>
        (falsy_string key \<longrightarrow>
           (\<forall>i < length (array_or_empty gs). \<exists>mc_in mc fc kvs.
              get_prop (array_or_empty gs ! i) ''monthlyContribution'' = Inr mc_in \<and>
              mc = (if typeof mc_in = ''number'' then mc_in
                    else JNum (perGoalAmount (surplus p) (length (array_or_empty gs)))) \<and>
              typeof mc = ''number'' \<and>
              computeGoalForecast rt now
                (JObj (AList.update ''monthlyContribution'' mc
                         (own_properties (array_or_empty gs ! i)))) = Inr fc \<and>
              goals p ! i = JObj kvs \<and>
              has_own (goals p ! i) ''monthlyContribution'' mc \<and>
              has_own (goals p ! i) ''monthsToGoal'' (JNum (monthsToGoal fc)) \<and>
              has_own (goals p ! i) ''projectedCompletionDate'' (projectedCompletionDate fc) \<and>
              get_prop (goals p ! i) ''monthlyContribution'' = Inr mc \<and>
              get_prop (goals p ! i) ''monthsToGoal'' = Inr (JNum (monthsToGoal fc)) \<and>
              get_prop (goals p ! i) ''projectedCompletionDate'' =
                Inr (projectedCompletionDate fc) \<and>
              (\<forall>k v. has_own (array_or_empty gs ! i) k v \<and>
                 k \<noteq> ''monthlyContribution'' \<and> k \<noteq> ''monthsToGoal'' \<and>
                 k \<noteq> ''projectedCompletionDate'' \<longrightarrow>
                 has_own (goals p ! i) k v \<and> get_prop (goals p ! i) k = Inr v)))"
    apply (rule exI [of _ gs])
    apply (intro conjI impI)
       apply (rule gs)
      apply (rule len)
     apply (erule narrated)
    apply (erule derived)
    done
qed

text \<open>
  The specification's example on both paths: without a key the first goal, which came
  with targetAmount only, has the three fields as own properties and keeps its
  targetAmount; with a key the goals are the input goals.
\<close>

theorem goals_carry_derived_fields_witness:
  "(\<exists>p. orbit_plan plain_runtime example_now None None (Inr []) example_body = Json p \<and>
      falsy_string None \<and> length (goals p) = 2 \<and>
      has_own (example_goals ! 0) ''targetAmount'' (JNum (Fin 1200)) \<and>
      get_prop (example_goals ! 0) ''monthlyContribution'' = Inr JUndefined \<and>
      perGoalAmount (surplus p) 2 = Fin 100 \<and>
      has_own (goals p ! 0) ''targetAmount'' (JNum (Fin 1200)) \<and>
      has_own (goals p ! 0) ''monthlyContribution'' (JNum (Fin 100)) \<and>
      has_own (goals p ! 0) ''monthsToGoal'' (JNum (Fin 12)) \<and>
      has_own (goals p ! 0) ''projectedCompletionDate'' (JStr ''2027-11-03'')) \<and>
   (\<exists>p. orbit_plan plain_runtime example_now (Some ''sk-test'') None (Inr []) example_body =
          Json p \<and>
      \<not> falsy_string (Some ''sk-test'') \<and> goals p = example_goals)"
proof -
  let ?r = "orbit_plan plain_runtime example_now None None (Inr []) example_body"
  let ?n = "orbit_plan plain_runtime example_now (Some ''sk-test'') None (Inr []) example_body"
  have f: "falsy_string None" by (simp add: falsy_string_def)
  have k: "\<not> falsy_string (Some ''sk-test'')" by (simp add: falsy_string_def)
  have g: "get_prop (get_prop_opt example_body ''state'') ''goals'' = Inr (JArr example_goals)"
    by code_simp
  have n: "length example_goals = 2" by code_simp
  have t0: "has_own (example_goals ! 0) ''targetAmount'' (JNum (Fin 1200))" by code_simp
  have m0: "get_prop (example_goals ! 0) ''monthlyContribution'' = Inr JUndefined"
    by code_simp
  have "is_json ?r" by code_simp
  then obtain p where p: "?r = Json p"
    using is_json_Json by blast
  have "map_option surplus (json_of ?r) = Some (Fin 1000)" by code_simp
  with p have sp: "surplus p = Fin 1000" by simp
  have d: "perGoalAmount (Fin 1000) 2 = Fin 100" by code_simp
  have "map_option goals (json_of ?r) = Some example_goals_planned" by code_simp
  with p have gp: "goals p = example_goals_planned" by simp
  from goals_carry_derived_fields
    [of plain_runtime example_now None None "Inr []" example_body p] p f
  obtain gs where
    gs: "get_prop (get_prop_opt example_body ''state'') ''goals'' = Inr gs" and
    len': "length (goals p) = length (array_or_empty gs)" and
    each: "\<And>i. i < length (array_or_empty gs) \<Longrightarrow> \<exists>mc_in mc.
      get_prop (array_or_empty gs ! i) ''monthlyContribution'' = Inr mc_in \<and>
      mc = (if typeof mc_in = ''number'' then mc_in
            else JNum (perGoalAmount (surplus p) (length (array_or_empty gs)))) \<and>
      has_own (goals p ! i) ''monthlyContribution'' mc \<and>
      (\<forall>k v. has_own (array_or_empty gs ! i) k v \<and>
         k \<noteq> ''monthlyContribution'' \<and> k \<noteq> ''monthsToGoal'' \<and>
         k \<noteq> ''projectedCompletionDate'' \<longrightarrow> has_own (goals p ! i) k v)"
    by blast
  from gs g have "gs = JArr example_goals" by simp
  then have arr: "array_or_empty gs = example_goals" by simp
  from len' arr have len: "length (goals p) = length example_goals" by simp
  have pos: "0 < length (array_or_empty gs)" by (simp add: arr n)
  from each [OF pos] obtain mc_in mc where
    "get_prop (array_or_empty gs ! 0) ''monthlyContribution'' = Inr mc_in" and
    "mc = (if typeof mc_in = ''number'' then mc_in
            else JNum (perGoalAmount (surplus p) (length (array_or_empty gs))))" and
    own_mc: "has_own (goals p ! 0) ''monthlyContribution'' mc" and
    echo': "\<forall>k v. has_own (array_or_empty gs ! 0) k v \<and>
         k \<noteq> ''monthlyContribution'' \<and> k \<noteq> ''monthsToGoal'' \<and>
         k \<noteq> ''projectedCompletionDate'' \<longrightarrow> has_own (goals p ! 0) k v"
    by blast
  then have echo: "\<forall>k v. has_own (example_goals ! 0) k v \<and>
         k \<noteq> ''monthlyContribution'' \<and> k \<noteq> ''monthsToGoal'' \<and>
         k \<noteq> ''projectedCompletionDate'' \<longrightarrow> has_own (goals p ! 0) k v"
    and "get_prop (example_goals ! 0) ''monthlyContribution'' = Inr mc_in"
    and "mc = (if typeof mc_in = ''number'' then mc_in
            else JNum (perGoalAmount (surplus p) (length example_goals)))"
    by (simp_all add: arr)
  with m0 have mc: "mc = JNum (perGoalAmount (surplus p) (length example_goals))"
    by simp
  from mc have "mc = JNum (Fin 100)" by (simp add: sp n d)
  with own_mc have c0: "has_own (goals p ! 0) ''monthlyContribution'' (JNum (Fin 100))"
    by simp
  from echo t0 have e0: "has_own (goals p ! 0) ''targetAmount'' (JNum (Fin 1200))"
    by simp
  have fields: "has_own (example_goals_planned ! 0) ''monthsToGoal'' (JNum (Fin 12)) \<and>
      has_own (example_goals_planned ! 0) ''projectedCompletionDate'' (JStr ''2027-11-03'')"
    by code_simp
  have "is_json ?n" by code_simp
  then obtain q where q: "?n = Json q"
    using is_json_Json by blast
  from goals_carry_derived_fields
    [of plain_runtime example_now "Some ''sk-test''" None "Inr []" example_body q] q g k
  have "goals q = example_goals"
    by auto
  with p q f k len n gp fields t0 m0 sp d c0 e0 show ?thesis by auto
qed

text \<open>
  C2 as stated covers both values of narrationAvailable. With an API key set, the
  goals of the example come back as they went in: none of the three derived fields is
  there.
\<close>

theorem narrated_goals_lack_derived_fields:
  "map_option goals
     (json_of (orbit_plan plain_runtime example_now (Some ''sk-test'') None (Inr [])
                 example_body)) = Some example_goals \<and>
   get_prop (example_goals ! 0) ''monthlyContribution'' = Inr JUndefined \<and>
   get_prop (example_goals ! 0) ''monthsToGoal'' = Inr JUndefined \<and>
   get_prop (example_goals ! 0) ''projectedCompletionDate'' = Inr JUndefined"
  by code_simp

text \<open>
  C3 (amended). When an account is linked, every record of a listing that is answered
  is tagged income or spending, and its amount is the absolute value of the raw amount
  for income (at least zero) and its negation for spending (at most zero). When no
  account is linked the listing is the fixed demo list.
\<close>

theorem listing_tags_and_signs:
  "(falsy_string tok \<longrightarrow> list_transactions rt tok fetched = Json demo_transactions) \<and>
   (\<not> falsy_string tok \<and> list_transactions rt tok fetched = Json rs \<longrightarrow>
      (\<exists>txs. fetched = Inr txs \<and> length rs = length txs \<and>
         (\<forall>i < length txs. \<exists>raw. tx_raw_amount rt (txs ! i) = Inr raw \<and>
            (l_type (rs ! i) = ''income'' \<and> l_amount (rs ! i) = js_abs raw \<and>
               js_le (Fin 0) (l_amount (rs ! i)) \<or>
             l_type (rs ! i) = ''spending'' \<and> l_amount (rs ! i) = js_neg (js_abs raw) \<and>
               js_le (l_amount (rs ! i)) (Fin 0)))))"
proof (intro conjI impI)
  assume "falsy_string tok"
  then show "list_transactions rt tok fetched = Json demo_transactions"
    by (simp add: list_transactions_def)
next
  assume a: "\<not> falsy_string tok \<and> list_transactions rt tok fetched = Json rs"
  then obtain txs where f: "fetched = Inr txs" and m: "map_err (normalize_tx rt) txs = Inr rs"
    by (auto simp: list_transactions_def and_then_eq_Inr split: sum.splits)
  have "\<exists>raw. tx_raw_amount rt (txs ! i) = Inr raw \<and>
            (l_type (rs ! i) = ''income'' \<and> l_amount (rs ! i) = js_abs raw \<and>
               js_le (Fin 0) (l_amount (rs ! i)) \<or>
             l_type (rs ! i) = ''spending'' \<and> l_amount (rs ! i) = js_neg (js_abs raw) \<and>
               js_le (l_amount (rs ! i)) (Fin 0))" if i: "i < length txs" for i
  proof -
    from map_err_nth [OF m i] have r: "normalize_tx rt (txs ! i) = Inr (rs ! i)" .
    from normalize_tx_reads [OF r] obtain raw label name where
      raw: "tx_raw_amount rt (txs ! i) = Inr raw" and
      label: "tx_label_text rt (txs ! i) = Inr label" and
      name: "tx_name_text rt (txs ! i) = Inr name"
      by blast
    from raw have "raw \<noteq> NaN"
      by (auto simp: tx_raw_amount_def dest: read_number_not_NaN)
    with normalize_tx_result [OF raw label name] r raw js_abs_sign [of raw]
    show ?thesis by auto
  qed
  with f map_err_length [OF m] show "\<exists>txs. fetched = Inr txs \<and> length rs = length txs \<and>
         (\<forall>i < length txs. \<exists>raw. tx_raw_amount rt (txs ! i) = Inr raw \<and>
            (l_type (rs ! i) = ''income'' \<and> l_amount (rs ! i) = js_abs raw \<and>
               js_le (Fin 0) (l_amount (rs ! i)) \<or>
             l_type (rs ! i) = ''spending'' \<and> l_amount (rs ! i) = js_neg (js_abs raw) \<and>
               js_le (l_amount (rs ! i)) (Fin 0)))"
    by blast
qed

text \<open>
  The three example transactions with a linked account, and the demo list without
  one.
\<close>

theorem listing_tags_and_signs_witness:
  "\<not> falsy_string example_token \<and>
   list_transactions plain_runtime example_token (Inr example_transactions) =
     Json example_listing \<and>
   map l_type example_listing = [''spending'', ''income'', ''spending''] \<and>
   map l_amount example_listing = [Fin (- 1600), Fin 2500, Fin (- (91 / 2))] \<and>
   falsy_string None \<and>
   list_transactions plain_runtime None (Inr example_transactions) = Json demo_transactions"
proof -
  have a: "\<not> falsy_string example_token" by code_simp
  have run: "list_transactions plain_runtime example_token (Inr example_transactions) =
     Json example_listing"
    by code_simp
  have f: "falsy_string None" by (simp add: falsy_string_def)
  from listing_tags_and_signs [of None plain_runtime "Inr example_transactions" example_listing] f
  have demo: "list_transactions plain_runtime None (Inr example_transactions) =
     Json demo_transactions"
    by blast
  from listing_tags_and_signs
    [of example_token plain_runtime "Inr example_transactions" example_listing] a run
  have "length example_listing = length example_transactions"
    by auto
  with a run f demo show ?thesis
    by (simp add: example_listing_def)
qed

text \<open>
  C3 as stated allows no tag but income and spending. With no account linked, the
  second record of the listing is tagged bill.
\<close>

theorem demo_listing_has_bill_tag:
  "list_transactions plain_runtime None (Inr []) = Json demo_transactions \<and>
   l_type (demo_transactions ! 1) = ''bill'' \<and>
   l_type (demo_transactions ! 1) \<noteq> ''income'' \<and>
   l_type (demo_transactions ! 1) \<noteq> ''spending''"
  by (simp add: list_transactions_def falsy_string_def demo_transactions_def)

text \<open>
  C4. With a token, a window whose start date is valid and transactions the aggregator
  can read, a snapshot is returned. In every snapshot returned, totalSpendingEstimate is
  the sum of the six categoryTotals, and the total of each category is the sum of the
  magnitudes of the transactions whose kind is spending in that category: a spending
  transaction counts in its one category, an income transaction in none.
  totalSpendingEstimate is also the sum of the magnitudes of the spending transactions,
  and totalIncomeEstimate that of the income transactions. Sums are exact.
\<close>

theorem snapshot_spending_is_category_sum:
  "(\<not> falsy_string tok \<and> setMonth now (Fin (of_int (MonthFromTime now - 1))) \<noteq> None \<and>
    (\<forall>tx \<in> set txs. readable rt tx) \<longrightarrow>
      (\<exists>s. buildPlaidSnapshot rt now tok (Inr txs) = Inr (Some s))) \<and>
   (\<forall>s. buildPlaidSnapshot rt now tok (Inr txs) = Inr (Some s) \<longrightarrow>
      totalSpendingEstimate s = js_sum (map (categoryTotals s) core_categories) \<and>
      (\<forall>c. categoryTotals s c =
         js_sum (map (magnitude rt) (filter (\<lambda>tx. tx_kind rt tx = Inr (Some c)) txs))) \<and>
      totalSpendingEstimate s =
        js_sum (map (magnitude rt) (filter (\<lambda>tx. tx_kind rt tx \<noteq> Inr None) txs)) \<and>
      totalIncomeEstimate s =
        js_sum (map (magnitude rt) (filter (\<lambda>tx. tx_kind rt tx = Inr None) txs)))"
proof (intro conjI impI allI)
  assume "\<not> falsy_string tok \<and> setMonth now (Fin (of_int (MonthFromTime now - 1))) \<noteq> None \<and>
    (\<forall>tx \<in> set txs. readable rt tx)"
  then show "\<exists>s. buildPlaidSnapshot rt now tok (Inr txs) = Inr (Some s)"
    using buildPlaidSnapshot_total by blast
next
  fix s assume "buildPlaidSnapshot rt now tok (Inr txs) = Inr (Some s)"
  then obtain a b where loop: "snapshot_loop rt (empty_snapshot a b) txs = Inr s"
    using buildPlaidSnapshot_loop by blast
  show "totalSpendingEstimate s = js_sum (map (categoryTotals s) core_categories)"
    by (rule snapshot_loop_spending [OF loop])
      (simp add: empty_snapshot_def js_sum_def core_categories_def)
  show "totalSpendingEstimate s =
        js_sum (map (magnitude rt) (filter (\<lambda>tx. tx_kind rt tx \<noteq> Inr None) txs))"
    using snapshot_loop_outflow [OF loop] by (simp add: empty_snapshot_def)
  show "totalIncomeEstimate s =
        js_sum (map (magnitude rt) (filter (\<lambda>tx. tx_kind rt tx = Inr None) txs))"
    using snapshot_loop_income [OF loop] by (simp add: empty_snapshot_def)
  fix c
  show "categoryTotals s c =
         js_sum (map (magnitude rt) (filter (\<lambda>tx. tx_kind rt tx = Inr (Some c)) txs))"
    using snapshot_loop_category [OF loop, of c] by (simp add: empty_snapshot_def)
qed

text \<open>
  The three example transactions: 1600 to Housing, 45.5 to Food and Dining, the
  payroll deposit to no category.
\<close>

theorem snapshot_spending_is_category_sum_witness:
  "\<not> falsy_string example_token \<and>
   setMonth example_now (Fin (of_int (MonthFromTime example_now - 1))) \<noteq> None \<and>
   list_all (readable plain_runtime) example_transactions \<and>
   (\<exists>s. buildPlaidSnapshot plain_runtime example_now example_token (Inr example_transactions) =
          Inr (Some s) \<and>
        totalSpendingEstimate s = js_sum (map (categoryTotals s) core_categories) \<and>
        categoryTotals s Housing = Fin 1600 \<and> categoryTotals s FoodAndDining = Fin (91 / 2) \<and>
        categoryTotals s Other = Fin 0 \<and> totalSpendingEstimate s = Fin (3291 / 2))"
proof -
  have a: "\<not> falsy_string example_token" by code_simp
  have b: "setMonth example_now (Fin (of_int (MonthFromTime example_now - 1))) \<noteq> None"
    by code_simp
  have c: "list_all (readable plain_runtime) example_transactions" by code_simp
  note inst = snapshot_spending_is_category_sum
    [of example_token example_now example_transactions plain_runtime]
  from inst a b c obtain s where
    s: "buildPlaidSnapshot plain_runtime example_now example_token (Inr example_transactions) =
          Inr (Some s)"
    by (auto simp: list_all_iff)
  with inst have t: "totalSpendingEstimate s = js_sum (map (categoryTotals s) core_categories)"
    and ct: "categoryTotals s c =
      js_sum (map (magnitude plain_runtime)
        (filter (\<lambda>tx. tx_kind plain_runtime tx = Inr (Some c)) example_transactions))" for c
    by blast+
  have v: "map (\<lambda>c. js_sum (map (magnitude plain_runtime)
        (filter (\<lambda>tx. tx_kind plain_runtime tx = Inr (Some c)) example_transactions)))
      core_categories = [Fin 1600, Fin (91 / 2), Fin 0, Fin 0, Fin 0, Fin 0]"
    by code_simp
  have "map (categoryTotals s) core_categories =
      map (\<lambda>c. js_sum (map (magnitude plain_runtime)
        (filter (\<lambda>tx. tx_kind plain_runtime tx = Inr (Some c)) example_transactions)))
      core_categories"
    by (simp add: ct)
  with v have cs: "map (categoryTotals s) core_categories =
      [Fin 1600, Fin (91 / 2), Fin 0, Fin 0, Fin 0, Fin 0]"
    by simp
  then have each: "categoryTotals s Housing = Fin 1600"
    "categoryTotals s FoodAndDining = Fin (91 / 2)" "categoryTotals s Other = Fin 0"
    by (simp_all add: core_categories_def)
  from t cs have total: "totalSpendingEstimate s = Fin (3291 / 2)"
    by (simp add: js_sum_def)
  from a b c s t each total show ?thesis
    by blast
qed

text \<open>
  C5. The specification says that for all numbers the forecaster returns the month
  count together with a present date-only completion date whenever target - current and
  the contribution are positive. With target 100000000, current 0 and contribution 1 the
  month count is 100000000; \<open>setMonth\<close> leaves the range of valid dates and
  \<open>toISOString\<close> throws a RangeError, so nothing is returned.
\<close>

theorem forecast_date_overflow_throws:
  "computeGoalForecast plain_runtime example_now
     (JObj [(''targetAmount'', JNum (Fin 100000000)), (''currentAmount'', JNum (Fin 0)),
            (''monthlyContribution'', JNum (Fin 1))]) = Inl RangeError"
  by code_simp

text \<open>
  C6. For every label and name, each a string or absent, the classifier returns what the
  five rule groups give when they are tried in the order Housing, Food and Dining,
  Transportation, Health and Fitness, Lifestyle with case-insensitive substring matching,
  the first match winning and Other the fallback. So a label that contains both "rent"
  and "food" is always Housing.
\<close>

theorem classify_first_match:
  "string_or_absent p \<and> string_or_absent n \<longrightarrow>
     mapPlaidCategoryToCore p n = Inr (classify_spec (text_of p) (text_of n)) \<and>
     (contains_ci (text_of p) ''rent'' \<and> contains_ci (text_of p) ''food'' \<longrightarrow>
        mapPlaidCategoryToCore p n = Inr Housing)"
  by (simp add: mapPlaidCategoryToCore_def lower_or_empty_text classify_spec_def
      rule_groups_def group_matches_def contains_ci_def str_includes_sublist
      toLowerCase_def[of "_ # _"] toLowerCase_def[of "[]"] lower_char_def)

theorem classify_first_match_witness:
  "string_or_absent (JStr ''RENT and Food'') \<and> string_or_absent JUndefined \<and>
   mapPlaidCategoryToCore (JStr ''RENT and Food'') JUndefined = Inr Housing \<and>
   classify_spec ''RENT and Food'' [] = Housing \<and>
   contains_ci ''RENT and Food'' ''rent'' \<and> contains_ci ''RENT and Food'' ''food''"
  using classify_first_match [of "JStr ''RENT and Food''" JUndefined]
  by (auto simp: string_or_absent_def text_of_def contains_ci_def toLowerCase_def
      lower_char_def sublist_code)

text \<open>
  C7. For every raw transaction whose amount, label and name can be read, the
  transaction is income exactly when the label contains "income" or "payroll" or the
  name contains "payroll", "salary" or "deposit", case-insensitively: the listing tags it
  income on that condition, and the aggregator gives it no category on that condition.
  When it is income, the listed amount is the absolute value of the raw amount, and the
  aggregator adds that magnitude to the income total and leaves the spending total and
  the category totals as they are.
\<close>

theorem income_detection:
  "tx_raw_amount rt tx = Inr raw \<and> tx_label_text rt tx = Inr label \<and>
   tx_name_text rt tx = Inr name \<longrightarrow>
     (\<exists>r. normalize_tx rt tx = Inr r \<and>
        (l_type r = ''income'') = income_spec label name \<and>
        (income_spec label name \<longrightarrow> l_amount r = js_abs raw)) \<and>
     (tx_kind rt tx = Inr None) = income_spec label name \<and>
     (income_spec label name \<longrightarrow>
        (\<exists>acc'. snapshot_step rt acc tx = Inr acc' \<and>
           totalIncomeEstimate acc' = js_add (totalIncomeEstimate acc) (js_abs raw) \<and>
           totalSpendingEstimate acc' = totalSpendingEstimate acc \<and>
           categoryTotals acc' = categoryTotals acc))"
proof (intro impI, elim conjE, intro conjI impI)
  assume raw: "tx_raw_amount rt tx = Inr raw" and label: "tx_label_text rt tx = Inr label"
    and name: "tx_name_text rt tx = Inr name"
  from normalize_tx_result [OF raw label name]
  show "\<exists>r. normalize_tx rt tx = Inr r \<and>
        (l_type r = ''income'') = income_spec label name \<and>
        (income_spec label name \<longrightarrow> l_amount r = js_abs raw)"
    by auto
  show kind: "(tx_kind rt tx = Inr None) = income_spec label name"
    by (rule tx_kind_income [OF label name])
  assume "income_spec label name"
  with kind have k: "tx_kind rt tx = Inr None" by simp
  from snapshot_step_total [OF raw k] obtain acc' where
    step: "snapshot_step rt acc tx = Inr acc'" by blast
  from snapshot_step_result [OF step] raw k
  show "\<exists>acc'. snapshot_step rt acc tx = Inr acc' \<and>
           totalIncomeEstimate acc' = js_add (totalIncomeEstimate acc) (js_abs raw) \<and>
           totalSpendingEstimate acc' = totalSpendingEstimate acc \<and>
           categoryTotals acc' = categoryTotals acc"
    using step by auto
qed

text \<open>
  The specification's example: label PAYROLL, name ACME CORP DIRECT DEP, amount -2500
  is income with magnitude 2500.
\<close>

theorem income_detection_witness:
  "tx_raw_amount plain_runtime payroll_transaction = Inr (Fin (- 2500)) \<and>
   tx_label_text plain_runtime payroll_transaction = Inr ''PAYROLL'' \<and>
   tx_name_text plain_runtime payroll_transaction = Inr ''ACME CORP DIRECT DEP'' \<and>
   income_spec ''PAYROLL'' ''ACME CORP DIRECT DEP'' \<and>
   tx_kind plain_runtime payroll_transaction = Inr None \<and>
   (\<exists>r. normalize_tx plain_runtime payroll_transaction = Inr r \<and> l_type r = ''income'' \<and>
      l_amount r = Fin 2500)"
proof -
  have raw: "tx_raw_amount plain_runtime payroll_transaction = Inr (Fin (- 2500))"
    by code_simp
  have label: "tx_label_text plain_runtime payroll_transaction = Inr ''PAYROLL''"
    by code_simp
  have name: "tx_name_text plain_runtime payroll_transaction = Inr ''ACME CORP DIRECT DEP''"
    by code_simp
  have inc: "income_spec ''PAYROLL'' ''ACME CORP DIRECT DEP''"
    by code_simp
  from income_detection [of plain_runtime payroll_transaction "Fin (- 2500)" "''PAYROLL''"
      "''ACME CORP DIRECT DEP''" "empty_snapshot [] []"] raw label name inc
  have "tx_kind plain_runtime payroll_transaction = Inr None"
    and "\<exists>r. normalize_tx plain_runtime payroll_transaction = Inr r \<and> l_type r = ''income'' \<and>
      l_amount r = js_abs (Fin (- 2500))"
    by auto
  with raw label name inc show ?thesis by simp
qed

text \<open>
  C8. With a token, a window whose start date is valid and transactions the aggregator
  can read, a snapshot is returned. In every snapshot returned, the sample holds the raw
  fields of the first ten transactions in input order, whatever their kind, so it has
  min(10, n) entries for n transactions, and ten for fifteen.
\<close>

theorem snapshot_sample_first_ten:
  "(\<not> falsy_string tok \<and> setMonth now (Fin (of_int (MonthFromTime now - 1))) \<noteq> None \<and>
    (\<forall>tx \<in> set txs. readable rt tx) \<longrightarrow>
      (\<exists>s. buildPlaidSnapshot rt now tok (Inr txs) = Inr (Some s))) \<and>
   (\<forall>s. buildPlaidSnapshot rt now tok (Inr txs) = Inr (Some s) \<longrightarrow>
      map_err (sample_entry rt) (take 10 txs) = Inr (sampleTransactions s) \<and>
      length (sampleTransactions s) = min 10 (length txs) \<and>
      (length txs = 15 \<longrightarrow> length (sampleTransactions s) = 10))"
proof (intro conjI impI allI)
  assume "\<not> falsy_string tok \<and> setMonth now (Fin (of_int (MonthFromTime now - 1))) \<noteq> None \<and>
    (\<forall>tx \<in> set txs. readable rt tx)"
  then show "\<exists>s. buildPlaidSnapshot rt now tok (Inr txs) = Inr (Some s)"
    using buildPlaidSnapshot_total by blast
next
  fix s assume "buildPlaidSnapshot rt now tok (Inr txs) = Inr (Some s)"
  then obtain a b where loop: "snapshot_loop rt (empty_snapshot a b) txs = Inr s"
    using buildPlaidSnapshot_loop by blast
  from snapshot_loop_sample [OF loop]
  show m: "map_err (sample_entry rt) (take 10 txs) = Inr (sampleTransactions s)"
    by (simp add: empty_snapshot_def)
  from map_err_length [OF m]
  show n: "length (sampleTransactions s) = min 10 (length txs)"
    by (simp add: min.commute)
  assume "length txs = 15"
  with n show "length (sampleTransactions s) = 10" by simp
qed

text \<open>
  Fifteen transactions, of both kinds, give a sample of ten.
\<close>

theorem snapshot_sample_first_ten_witness:
  "\<not> falsy_string example_token \<and>
   setMonth example_now (Fin (of_int (MonthFromTime example_now - 1))) \<noteq> None \<and>
   list_all (readable plain_runtime) fifteen_transactions \<and>
   length fifteen_transactions = 15 \<and>
   (\<exists>s. buildPlaidSnapshot plain_runtime example_now example_token (Inr fifteen_transactions) =
          Inr (Some s) \<and>
        length (sampleTransactions s) = 10 \<and>
        map_err (sample_entry plain_runtime) (take 10 fifteen_transactions) =
          Inr (sampleTransactions s))"
proof -
  have a: "\<not> falsy_string example_token" by code_simp
  have b: "setMonth example_now (Fin (of_int (MonthFromTime example_now - 1))) \<noteq> None"
    by code_simp
  have c: "list_all (readable plain_runtime) fifteen_transactions" by code_simp
  have n: "length fifteen_transactions = 15" by code_simp
  note inst = snapshot_sample_first_ten
    [of example_token example_now fifteen_transactions plain_runtime]
  from inst a b c obtain s where
    s: "buildPlaidSnapshot plain_runtime example_now example_token (Inr fifteen_transactions) =
          Inr (Some s)"
    by (auto simp: list_all_iff)
  with inst n
  have "map_err (sample_entry plain_runtime) (take 10 fifteen_transactions) =
          Inr (sampleTransactions s) \<and> length (sampleTransactions s) = 10"
    by blast
  with a b c n s show ?thesis by blast
qed

text \<open>
  C9. The specification says that every budget state that is an object gets a plan,
  malformed nested fields falling back to zero or empty. The state
  \<open>{"categories": [null]}\<close> is an object; reading \<open>cat.planned\<close> of its null entry
  throws a TypeError, and the handler answers with status 500 instead of a plan.
\<close>

theorem null_category_fails_plan:
  "orbit_plan plain_runtime example_now None None (Inr [])
     (JObj [(''state'', JObj [(''categories'', JArr [JNull])])]) =
   Status 500 ''Failed to build Orbit plan''"
  by (simp add: orbit_plan_def build_plan_def get_prop_opt_def read_number_def
      number_or_zero_def num_or_zero_def)

text \<open>
  The state of that request passes the handler's check, being a non-null object, and the
  answer carries no plan.
\<close>

theorem null_category_fails_plan_witness:
  "truthy (JObj [(''categories'', JArr [JNull])]) \<and>
   typeof (JObj [(''categories'', JArr [JNull])]) = ''object'' \<and>
   json_of (orbit_plan plain_runtime example_now None None (Inr [])
              (JObj [(''state'', JObj [(''categories'', JArr [JNull])])])) = None"
  using null_category_fails_plan by (simp add: json_of_def)

text \<open>
  C10. On the path without an API key, in every plan returned, whether a goal's
  monthlyContribution is explicit is decided by its type alone: the output goal has the
  own property monthlyContribution, which is the input goal's value when \<open>typeof\<close> gives
  number for it and the computed default for every other value. So a goal whose
  monthlyContribution is a string (a numeric one included) gets the computed default in
  its place, and a goal whose monthlyContribution is NaN keeps NaN, with monthsToGoal 0
  and a null projectedCompletionDate.
\<close>

theorem explicit_means_typeof_number:
  "orbit_plan rt now key tok fetched body = Json p \<and> falsy_string key \<and>
   get_prop (get_prop_opt body ''state'') ''goals'' = Inr gs \<and>
   i < length (array_or_empty gs) \<longrightarrow>
     (\<exists>mc. get_prop (array_or_empty gs ! i) ''monthlyContribution'' = Inr mc \<and>
        has_own (goals p ! i) ''monthlyContribution''
          (if typeof mc = ''number'' then mc
           else JNum (perGoalAmount (surplus p) (length (array_or_empty gs)))) \<and>
        get_prop (goals p ! i) ''monthlyContribution'' =
          Inr (if typeof mc = ''number'' then mc
               else JNum (perGoalAmount (surplus p) (length (array_or_empty gs))))) \<and>
     (\<forall>s. get_prop (array_or_empty gs ! i) ''monthlyContribution'' = Inr (JStr s) \<longrightarrow>
        get_prop (goals p ! i) ''monthlyContribution'' =
          Inr (JNum (perGoalAmount (surplus p) (length (array_or_empty gs))))) \<and>
     (get_prop (array_or_empty gs ! i) ''monthlyContribution'' = Inr (JNum NaN) \<longrightarrow>
        get_prop (goals p ! i) ''monthlyContribution'' = Inr (JNum NaN) \<and>
        get_prop (goals p ! i) ''monthsToGoal'' = Inr (JNum (Fin 0)) \<and>
        get_prop (goals p ! i) ''projectedCompletionDate'' = Inr JNull)"
proof (intro impI, elim conjE)
  assume plan: "orbit_plan rt now key tok fetched body = Json p" and key: "falsy_string key"
    and gs: "get_prop (get_prop_opt body ''state'') ''goals'' = Inr gs"
    and i: "i < length (array_or_empty gs)"
  let ?g = "array_or_empty gs ! i" and ?d = "perGoalAmount (surplus p) (length (array_or_empty gs))"
  from goal_with_contribution_own [OF fallback_goal [OF plan key gs i]]
  obtain mc fc where
    mc: "get_prop ?g ''monthlyContribution'' = Inr mc" and
    fc: "computeGoalForecast rt now
       (JObj (AList.update ''monthlyContribution''
                (if typeof mc = ''number'' then mc else JNum ?d) (own_properties ?g))) = Inr fc" and
    own: "has_own (goals p ! i) ''monthlyContribution''
            (if typeof mc = ''number'' then mc else JNum ?d)" and
    out: "get_prop (goals p ! i) ''monthlyContribution'' =
            Inr (if typeof mc = ''number'' then mc else JNum ?d)"
      "get_prop (goals p ! i) ''monthsToGoal'' = Inr (JNum (monthsToGoal fc))"
      "get_prop (goals p ! i) ''projectedCompletionDate'' = Inr (projectedCompletionDate fc)"
    by blast
  from mc own out(1)
  have rule: "\<exists>mc. get_prop ?g ''monthlyContribution'' = Inr mc \<and>
        has_own (goals p ! i) ''monthlyContribution''
          (if typeof mc = ''number'' then mc else JNum ?d) \<and>
        get_prop (goals p ! i) ''monthlyContribution'' =
          Inr (if typeof mc = ''number'' then mc else JNum ?d)"
    by blast
  have str: "get_prop (goals p ! i) ''monthlyContribution'' = Inr (JNum ?d)"
    if "get_prop ?g ''monthlyContribution'' = Inr (JStr s)" for s
    using that mc out(1) by simp
  have nan: "get_prop (goals p ! i) ''monthlyContribution'' = Inr (JNum NaN) \<and>
        get_prop (goals p ! i) ''monthsToGoal'' = Inr (JNum (Fin 0)) \<and>
        get_prop (goals p ! i) ''projectedCompletionDate'' = Inr JNull"
    if n: "get_prop ?g ''monthlyContribution'' = Inr (JNum NaN)"
  proof -
    from n mc have m: "mc = JNum NaN" by simp
    with fc have "computeGoalForecast rt now
       (JObj (AList.update ''monthlyContribution'' (JNum NaN) (own_properties ?g))) = Inr fc"
      by simp
    from computeGoalForecast_NaN_contribution [OF this]
    have "monthsToGoal fc = Fin 0 \<and> projectedCompletionDate fc = JNull"
      by (simp add: update_conv')
    with out m show ?thesis by simp
  qed
  from rule str nan show "(\<exists>mc. get_prop ?g ''monthlyContribution'' = Inr mc \<and>
        has_own (goals p ! i) ''monthlyContribution''
          (if typeof mc = ''number'' then mc else JNum ?d) \<and>
        get_prop (goals p ! i) ''monthlyContribution'' =
          Inr (if typeof mc = ''number'' then mc else JNum ?d)) \<and>
     (\<forall>s. get_prop ?g ''monthlyContribution'' = Inr (JStr s) \<longrightarrow>
        get_prop (goals p ! i) ''monthlyContribution'' = Inr (JNum ?d)) \<and>
     (get_prop ?g ''monthlyContribution'' = Inr (JNum NaN) \<longrightarrow>
        get_prop (goals p ! i) ''monthlyContribution'' = Inr (JNum NaN) \<and>
        get_prop (goals p ! i) ''monthsToGoal'' = Inr (JNum (Fin 0)) \<and>
        get_prop (goals p ! i) ''projectedCompletionDate'' = Inr JNull)"
    by blast
qed

text \<open>
  Four goals at a surplus of 600, so that the default is 30: the contribution "100" and
  the contribution \<open>true\<close> are replaced by 30, the contribution 25 is kept, and the
  contribution NaN is kept with no forecast.
\<close>

theorem explicit_means_typeof_number_witness:
  "falsy_string None \<and>
   get_prop (get_prop_opt (budget_body (Fin 600) [] typed_goals) ''state'') ''goals'' =
     Inr (JArr typed_goals) \<and>
   get_prop (typed_goals ! 0) ''monthlyContribution'' = Inr (JStr ''100'') \<and>
   get_prop (typed_goals ! 1) ''monthlyContribution'' = Inr (JNum NaN) \<and>
   get_prop (typed_goals ! 2) ''monthlyContribution'' = Inr (JNum (Fin 25)) \<and>
   get_prop (typed_goals ! 3) ''monthlyContribution'' = Inr (JBool True) \<and>
   (\<exists>p. orbit_plan plain_runtime example_now None None (Inr [])
          (budget_body (Fin 600) [] typed_goals) = Json p \<and>
      perGoalAmount (surplus p) 4 = Fin 30 \<and>
      get_prop (goals p ! 0) ''monthlyContribution'' = Inr (JNum (Fin 30)) \<and>
      get_prop (goals p ! 1) ''monthlyContribution'' = Inr (JNum NaN) \<and>
      get_prop (goals p ! 1) ''monthsToGoal'' = Inr (JNum (Fin 0)) \<and>
      get_prop (goals p ! 1) ''projectedCompletionDate'' = Inr JNull \<and>
      has_own (goals p ! 2) ''monthlyContribution'' (JNum (Fin 25)) \<and>
      has_own (goals p ! 3) ''monthlyContribution'' (JNum (Fin 30)))"
proof -
  let ?b = "budget_body (Fin 600) [] typed_goals"
  let ?r = "orbit_plan plain_runtime example_now None None (Inr []) ?b"
  have f: "falsy_string None" by (simp add: falsy_string_def)
  have g: "get_prop (get_prop_opt ?b ''state'') ''goals'' = Inr (JArr typed_goals)"
    by code_simp
  have m0: "get_prop (typed_goals ! 0) ''monthlyContribution'' = Inr (JStr ''100'')"
    by code_simp
  have m1: "get_prop (typed_goals ! 1) ''monthlyContribution'' = Inr (JNum NaN)"
    by code_simp
  have m2: "get_prop (typed_goals ! 2) ''monthlyContribution'' = Inr (JNum (Fin 25))"
    by code_simp
  have m3: "get_prop (typed_goals ! 3) ''monthlyContribution'' = Inr (JBool True)"
    by code_simp
  have n: "length typed_goals = 4" by code_simp
  have "is_json ?r" by code_simp
  then obtain p where p: "?r = Json p"
    using is_json_Json by blast
  have "map_option surplus (json_of ?r) = Some (Fin 600)" by code_simp
  with p have sp: "surplus p = Fin 600" by simp
  have d: "perGoalAmount (Fin 600) 4 = Fin 30" by code_simp
  from explicit_means_typeof_number
    [of plain_runtime example_now None None "Inr []" ?b p "JArr typed_goals" 0] p f g n m0
  have o0: "get_prop (goals p ! 0) ''monthlyContribution'' = Inr (JNum (Fin 30))"
    by (simp add: sp d)
  from explicit_means_typeof_number
    [of plain_runtime example_now None None "Inr []" ?b p "JArr typed_goals" 1] p f g n m1
  have o1: "get_prop (goals p ! 1) ''monthlyContribution'' = Inr (JNum NaN) \<and>
      get_prop (goals p ! 1) ''monthsToGoal'' = Inr (JNum (Fin 0)) \<and>
      get_prop (goals p ! 1) ''projectedCompletionDate'' = Inr JNull"
    by simp
  from explicit_means_typeof_number
    [of plain_runtime example_now None None "Inr []" ?b p "JArr typed_goals" 2] p f g n m2
  have o2: "has_own (goals p ! 2) ''monthlyContribution'' (JNum (Fin 25))"
    by auto
  from explicit_means_typeof_number
    [of plain_runtime example_now None None "Inr []" ?b p "JArr typed_goals" 3] p f g n m3
  have o3: "has_own (goals p ! 3) ''monthlyContribution'' (JNum (Fin 30))"
    by (auto simp: sp d)
  from f g m0 m1 m2 m3 p sp d o0 o1 o2 o3 show ?thesis by auto
qed

end
